theory Spec2Isabelle
  imports Main "HOL-Library.Word" "HOL-Library.Sublist"
begin

section \<open>Legacy shader decompiler: control-flow analysis\<close>

text \<open>
  Source: \<^verbatim>\<open>video_core/shader/generator/glsl_shader_decompiler.cpp\<close>.
  Offsets into the shader program are \<^verbatim>\<open>u32\<close> values; arithmetic on them wraps.
\<close>

type_synonym u32 = "32 word"

datatype ExitMethod = Undetermined | AlwaysReturn | Conditional | AlwaysEnd

text \<open>\<^verbatim>\<open>ControlFlowAnalyzer::ParallelExit\<close>: merges the exit methods of two parallel branches.\<close>

definition ParallelExit :: "ExitMethod \<Rightarrow> ExitMethod \<Rightarrow> ExitMethod" where
  "ParallelExit a b =
     (if a = Undetermined then b
      else if b = Undetermined then a
      else if a = b then a
      else Conditional)"

text \<open>
  \<^verbatim>\<open>ControlFlowAnalyzer::SeriesExit\<close>: cascades the exit methods of two blocks of code.
  The function opens with \<^verbatim>\<open>DEBUG_ASSERT(a != ExitMethod::AlwaysEnd)\<close>, which is compiled
  out of release builds and changes no value; \<open>SeriesExit_assertion\<close> is its condition.
\<close>

definition SeriesExit_assertion :: "ExitMethod \<Rightarrow> bool" where
  "SeriesExit_assertion a = (a \<noteq> AlwaysEnd)"

definition SeriesExit :: "ExitMethod \<Rightarrow> ExitMethod \<Rightarrow> ExitMethod" where
  "SeriesExit a b =
     (if a = Undetermined then Undetermined
      else if a = AlwaysReturn then b
      else if b = Undetermined \<or> b = AlwaysEnd then AlwaysEnd
      else Conditional)"


subsection \<open>Decoded instructions\<close>

text \<open>
  The decompiler reads each program word through the bit-field views of the nihstro
  library (\<^verbatim>\<open>nihstro/shader_bytecode.h\<close>, an external header). The model works on the
  decoded view: an instruction is the record of the values those accessors return, so the
  bit layout itself is a parameter. Register operands are decoded into the register
  file they name and their index; nihstro gives a source register one of three files and
  a destination register one of two, so the \<^verbatim>\<open>UNREACHABLE()\<close> defaults of
  \<^verbatim>\<open>GetSourceRegister\<close> and \<^verbatim>\<open>GetDestRegister\<close> have no input.
\<close>

text \<open>\<^verbatim>\<open>OpCode::Id\<close>; \<open>MAX_op\<close> and \<open>MIN_op\<close> are \<^verbatim>\<open>MAX\<close> and \<^verbatim>\<open>MIN\<close>.\<close>

datatype OpCodeId =
    ADD | DP3 | DP4 | DPH | DST | EX2 | LG2 | LITP | MUL | SGE | SLT | FLR | MAX_op | MIN_op
  | RCP | RSQ | MOVA | MOV | DPHI | DSTI | SGEI | SLTI
  | BREAK | NOP | END | BREAKC | CALL | CALLC | CALLU | IFU | IFC | LOOP | EMIT | SETEMIT
  | JMPC | JMPU | CMP | MADI | MAD | OtherOpCode nat

datatype OpCodeType =
  Trivial | Arithmetic | ConditionalType | UniformFlowControl | SetEmit | MultiplyAdd | UnknownType

datatype SourceRegister = SrcInput u32 | SrcTemporary u32 | SrcFloatUniform u32

datatype DestRegister = DestOutput u32 | DestTemporary u32

datatype CompareOp =
  Equal | NotEqual | LessThan | LessEqual | GreaterThan | GreaterEqual | Unk6 | Unk7

datatype FlowOp = FlowOr | FlowAnd | JustX | JustY

datatype Selector = Sel_x | Sel_y | Sel_z | Sel_w

record SwizzlePattern =
  DestComponentEnabled :: "nat \<Rightarrow> bool"
  negate_src1 :: bool
  negate_src2 :: bool
  negate_src3 :: bool
  SelectorSrc1 :: "nat \<Rightarrow> Selector"
  SelectorSrc2 :: "nat \<Rightarrow> Selector"
  SelectorSrc3 :: "nat \<Rightarrow> Selector"

text \<open>
  \<open>opcode\<close> is \<^verbatim>\<open>instr.opcode.Value()\<close>, \<open>effective_opcode\<close> its
  \<^verbatim>\<open>EffectiveOpCode()\<close>, \<open>info_type\<close>, \<open>info_src_inversed\<close> and \<open>info_name\<close> come from its
  \<^verbatim>\<open>GetInfo()\<close>. The \<open>common_\<close>, \<open>flow_\<close> and \<open>mad_\<close> fields are the views
  \<^verbatim>\<open>instr.common\<close>, \<^verbatim>\<open>instr.flow_control\<close> and \<^verbatim>\<open>instr.mad\<close>; the \<open>GetSrc\<close> fields take
  the \<^verbatim>\<open>is_inverted\<close> argument.
\<close>

record Instruction =
  opcode :: OpCodeId
  effective_opcode :: OpCodeId
  info_type :: OpCodeType
  info_src_inversed :: bool
  info_name :: string
  common_operand_desc_id :: u32
  common_GetSrc1 :: "bool \<Rightarrow> SourceRegister"
  common_GetSrc2 :: "bool \<Rightarrow> SourceRegister"
  common_address_register_index :: u32
  common_dest :: DestRegister
  compare_op_x :: CompareOp
  compare_op_y :: CompareOp
  flow_num_instructions :: u32
  flow_dest_offset :: u32
  flow_op :: FlowOp
  flow_bool_uniform_id :: u32
  flow_int_uniform_id :: u32
  flow_refx :: bool
  flow_refy :: bool
  mad_operand_desc_id :: u32
  mad_GetSrc1 :: "bool \<Rightarrow> SourceRegister"
  mad_GetSrc2 :: "bool \<Rightarrow> SourceRegister"
  mad_GetSrc3 :: "bool \<Rightarrow> SourceRegister"
  mad_address_register_index :: u32
  mad_dest :: DestRegister

text \<open>
  \<^verbatim>\<open>ProgramCode\<close> is a \<^verbatim>\<open>std::array\<close> of \<^verbatim>\<open>MAX_PROGRAM_CODE_LENGTH\<close> words, and
  \<^verbatim>\<open>PROGRAM_END = MAX_PROGRAM_CODE_LENGTH\<close>. The constant is declared outside the files at
  hand, so the program carries it. Indexing the array at or beyond its length is
  undefined behaviour in the source; the model makes it the failure \<open>OutOfRange\<close>.
\<close>

record ProgramCode =
  words :: "u32 \<Rightarrow> Instruction"
  MAX_PROGRAM_CODE_LENGTH :: u32

definition PROGRAM_END :: "ProgramCode \<Rightarrow> u32" where
  "PROGRAM_END program_code = MAX_PROGRAM_CODE_LENGTH program_code"

text \<open>
  What can end a translation early: the exception \<^verbatim>\<open>DecompileFail\<close> with its message, an
  out-of-range index, and a failed \<^verbatim>\<open>ASSERT\<close> (which stops the process).
\<close>

datatype Failure = DecompileFail string | OutOfRange | AssertFailed

definition code_at :: "ProgramCode \<Rightarrow> u32 \<Rightarrow> Failure + Instruction" where
  "code_at program_code offset =
     (if offset < MAX_PROGRAM_CODE_LENGTH program_code then Inr (words program_code offset)
      else Inl OutOfRange)"

text \<open>
  A computation that may not return (\<open>None\<close>), may fail (\<open>Some (Inl e)\<close>) or returns a
  value; \<open>bind\<close> runs the next step on a value and passes everything else on, as an
  exception or a crash unwinds the callers.
\<close>

type_synonym 'a result = "(Failure + 'a) option"

definition return :: "'a \<Rightarrow> 'a result" where
  "return v = Some (Inr v)"

definition throw :: "Failure \<Rightarrow> 'a result" where
  "throw e = Some (Inl e)"

definition bind :: "'a result \<Rightarrow> ('a \<Rightarrow> 'b result) \<Rightarrow> 'b result" where
  "bind m f = (case m of None \<Rightarrow> None | Some (Inl e) \<Rightarrow> Some (Inl e) | Some (Inr v) \<Rightarrow> f v)"

subsection \<open>Subroutines\<close>

text \<open>
  \<^verbatim>\<open>std::set<u32>\<close> and \<^verbatim>\<open>std::set<Subroutine>\<close> are kept as lists in the order of the
  set: labels ascending, subroutines ascending in \<open>(begin, end)\<close>, no key twice.
\<close>

record Subroutine =
  sub_begin :: u32
  sub_end :: u32
  exit_method :: ExitMethod
  labels :: "u32 list"

definition Subroutine_less :: "Subroutine \<Rightarrow> Subroutine \<Rightarrow> bool" where
  "Subroutine_less a b =
     (sub_begin a < sub_begin b \<or> (sub_begin a = sub_begin b \<and> sub_end a < sub_end b))"

fun labels_insert :: "u32 \<Rightarrow> u32 list \<Rightarrow> u32 list" where
  "labels_insert x [] = [x]"
| "labels_insert x (y # ys) =
     (if x < y then x # y # ys else if x = y then y # ys else y # labels_insert x ys)"

fun subroutines_find :: "Subroutine list \<Rightarrow> u32 \<Rightarrow> u32 \<Rightarrow> Subroutine option" where
  "subroutines_find [] b e = None"
| "subroutines_find (s # ss) b e =
     (if sub_begin s = b \<and> sub_end s = e then Some s else subroutines_find ss b e)"

fun subroutines_insert :: "Subroutine \<Rightarrow> Subroutine list \<Rightarrow> Subroutine list" where
  "subroutines_insert x [] = [x]"
| "subroutines_insert x (y # ys) =
     (if Subroutine_less x y then x # y # ys
      else if Subroutine_less y x then y # subroutines_insert x ys
      else y # ys)"

subsection \<open>ControlFlowAnalyzer\<close>

record ControlFlowAnalyzer_state =
  subroutines :: "Subroutine list"
  exit_method_map :: "u32 \<times> u32 \<rightharpoonup> ExitMethod"

text \<open>\<^verbatim>\<open>return exit_method = m\<close>: the reference \<^verbatim>\<open>exit_method\<close> is the map entry of the range.\<close>

definition Scan_return ::
  "u32 \<Rightarrow> u32 \<Rightarrow> ExitMethod \<Rightarrow> u32 list \<Rightarrow> ControlFlowAnalyzer_state
     \<Rightarrow> (ExitMethod \<times> u32 list \<times> ControlFlowAnalyzer_state) result" where
  "Scan_return b e m ls st =
     return (m, ls, st\<lparr>exit_method_map := (exit_method_map st)((b, e) \<mapsto> m)\<rparr>)"

text \<open>
  \<^verbatim>\<open>ControlFlowAnalyzer::Scan\<close> and \<^verbatim>\<open>ControlFlowAnalyzer::AddSubroutine\<close>. The first
  argument bounds the depth of the calls (every call and every turn of the \<^verbatim>\<open>for\<close> loop
  takes one unit); \<open>None\<close> means the bound was too small. \<open>Scan_loop\<close> is the \<^verbatim>\<open>for\<close>
  loop of \<^verbatim>\<open>Scan\<close> from \<open>offset\<close> on. The label set, passed by reference in the source,
  is passed in and returned.
\<close>

function (sequential) Scan :: "nat \<Rightarrow> ProgramCode \<Rightarrow> u32 \<Rightarrow> u32 \<Rightarrow> u32 list \<Rightarrow> ControlFlowAnalyzer_state
     \<Rightarrow> (ExitMethod \<times> u32 list \<times> ControlFlowAnalyzer_state) result"
and Scan_loop :: "nat \<Rightarrow> ProgramCode \<Rightarrow> u32 \<Rightarrow> u32 \<Rightarrow> u32 \<Rightarrow> u32 list \<Rightarrow> ControlFlowAnalyzer_state
     \<Rightarrow> (ExitMethod \<times> u32 list \<times> ControlFlowAnalyzer_state) result"
and AddSubroutine :: "nat \<Rightarrow> ProgramCode \<Rightarrow> u32 \<Rightarrow> u32 \<Rightarrow> ControlFlowAnalyzer_state
     \<Rightarrow> (Subroutine \<times> ControlFlowAnalyzer_state) result"
where
  "Scan 0 program_code b e ls st = None"
| "Scan (Suc n) program_code b e ls st =
     (case exit_method_map st (b, e) of
        Some m \<Rightarrow> return (m, ls, st)
      | None \<Rightarrow>
          Scan_loop n program_code b e b ls
            (st\<lparr>exit_method_map := (exit_method_map st)((b, e) \<mapsto> Undetermined)\<rparr>))"
| "Scan_loop 0 program_code b e offset ls st = None"
| "Scan_loop (Suc n) program_code b e offset ls st =
     (if offset = e \<or> offset = PROGRAM_END program_code then Scan_return b e AlwaysReturn ls st
      else
        case code_at program_code offset of
          Inl err \<Rightarrow> throw err
        | Inr instr \<Rightarrow>
            if opcode instr = END then Scan_return b e AlwaysEnd ls st
            else if opcode instr = JMPC \<or> opcode instr = JMPU then
              bind (Scan n program_code (offset + 1) e (labels_insert (flow_dest_offset instr) ls) st)
                (\<lambda>(no_jmp, ls1, st1).
              bind (Scan n program_code (flow_dest_offset instr) e ls1 st1)
                (\<lambda>(jmp, ls2, st2).
              Scan_return b e (ParallelExit no_jmp jmp) ls2 st2))
            else if opcode instr = CALL then
              bind (AddSubroutine n program_code (flow_dest_offset instr)
                      (flow_dest_offset instr + flow_num_instructions instr) st)
                (\<lambda>(call, st1).
              if exit_method call = AlwaysEnd then Scan_return b e AlwaysEnd ls st1
              else
                bind (Scan n program_code (offset + 1) e ls st1)
                  (\<lambda>(after_call, ls2, st2).
                Scan_return b e (SeriesExit (exit_method call) after_call) ls2 st2))
            else if opcode instr = LOOP then
              bind (AddSubroutine n program_code (offset + 1) (flow_dest_offset instr + 1) st)
                (\<lambda>(loop, st1).
              if exit_method loop = AlwaysEnd then Scan_return b e AlwaysEnd ls st1
              else
                bind (Scan n program_code (flow_dest_offset instr + 1) e ls st1)
                  (\<lambda>(after_loop, ls2, st2).
                Scan_return b e (SeriesExit (exit_method loop) after_loop) ls2 st2))
            else if opcode instr = CALLC \<or> opcode instr = CALLU then
              bind (AddSubroutine n program_code (flow_dest_offset instr)
                      (flow_dest_offset instr + flow_num_instructions instr) st)
                (\<lambda>(call, st1).
              bind (Scan n program_code (offset + 1) e ls st1)
                (\<lambda>(after_call, ls2, st2).
              Scan_return b e
                (SeriesExit (ParallelExit (exit_method call) AlwaysReturn) after_call) ls2 st2))
            else if opcode instr = IFU \<or> opcode instr = IFC then
              bind (AddSubroutine n program_code (offset + 1) (flow_dest_offset instr) st)
                (\<lambda>(if_sub, st1).
              bind (if flow_num_instructions instr \<noteq> 0 then
                      bind (AddSubroutine n program_code (flow_dest_offset instr)
                              (flow_dest_offset instr + flow_num_instructions instr) st1)
                        (\<lambda>(else_sub, st2). return (exit_method else_sub, st2))
                    else return (AlwaysReturn, st1))
                (\<lambda>(else_method, st2).
              let both = ParallelExit (exit_method if_sub) else_method in
              if both = AlwaysEnd then Scan_return b e AlwaysEnd ls st2
              else
                bind (Scan n program_code
                        (flow_dest_offset instr + flow_num_instructions instr) e ls st2)
                  (\<lambda>(after_call, ls3, st3).
                Scan_return b e (SeriesExit both after_call) ls3 st3)))
            else Scan_loop n program_code b e (offset + 1) ls st)"
| "AddSubroutine 0 program_code b e st = None"
| "AddSubroutine (Suc n) program_code b e st =
     (case subroutines_find (subroutines st) b e of
        Some sub \<Rightarrow> return (sub, st)
      | None \<Rightarrow>
          bind (Scan n program_code b e [] st)
            (\<lambda>(m, ls, st1).
          if m = Undetermined then throw (DecompileFail ''Recursive function detected'')
          else
            let subroutine = \<lparr>sub_begin = b, sub_end = e, exit_method = m, labels = ls\<rparr> in
            return (subroutine,
                    st1\<lparr>subroutines := subroutines_insert subroutine (subroutines st1)\<rparr>)))"
  by pat_completeness auto
termination
  by (relation "measure (\<lambda>x. case x of Inl (n, _) \<Rightarrow> n | Inr (Inl (n, _)) \<Rightarrow> n
                                  | Inr (Inr (n, _)) \<Rightarrow> n)") auto

text \<open>
  The constructor \<^verbatim>\<open>ControlFlowAnalyzer::ControlFlowAnalyzer\<close> followed by
  \<^verbatim>\<open>MoveSubroutines\<close>: the set of subroutines, or the failure.
\<close>

definition ControlFlowAnalyzer :: "nat \<Rightarrow> ProgramCode \<Rightarrow> u32 \<Rightarrow> Subroutine list result" where
  "ControlFlowAnalyzer n program_code main_offset =
     bind (AddSubroutine n program_code main_offset (PROGRAM_END program_code)
             \<lparr>subroutines = [], exit_method_map = Map.empty\<rparr>)
       (\<lambda>(program_main, st).
     if exit_method program_main \<noteq> AlwaysEnd then
       throw (DecompileFail ''Program does not always end'')
     else return (subroutines st))"

subsection \<open>ShaderWriter and text formatting\<close>

text \<open>\<^verbatim>\<open>std::to_string\<close> and the \<^verbatim>\<open>{}\<close> of \<^verbatim>\<open>fmt::format\<close> on an unsigned number: its decimal digits.\<close>

definition digit_char :: "nat \<Rightarrow> char" where
  "digit_char n = ''0123456789'' ! (n mod 10)"

function to_string :: "nat \<Rightarrow> string" where
  "to_string n = (if n < 10 then [digit_char n] else to_string (n div 10) @ [digit_char n])"
  by pat_completeness auto
termination
  by (relation "measure id") auto

declare to_string.simps [simp del]

definition newline :: char where
  "newline = CHR 0x0A"

text \<open>
  \<^verbatim>\<open>ShaderWriter\<close>. \<^verbatim>\<open>scope\<close> is never negative where a line is added (the source asserts
  it), so the indentation is \<open>4 * scope\<close> spaces. The generator state extends the writer
  with the messages that \<^verbatim>\<open>LOG_ERROR\<close> has written and that are not followed by an
  exception.
\<close>

record ShaderWriter =
  shader_source :: string
  scope :: int

record GLSLGenerator = ShaderWriter +
  error_log :: "string list"

definition AddExpression :: "string \<Rightarrow> 'a ShaderWriter_scheme \<Rightarrow> 'a ShaderWriter_scheme" where
  "AddExpression line sh =
     sh\<lparr>shader_source :=
          shader_source sh
          @ (if line \<noteq> [] then replicate (nat (scope sh) * 4) CHR '' '' else [])
          @ line\<rparr>"

definition AddNewLine :: "'a ShaderWriter_scheme \<Rightarrow> 'a ShaderWriter_scheme" where
  "AddNewLine sh = sh\<lparr>shader_source := shader_source sh @ [newline]\<rparr>"

definition AddLine :: "string \<Rightarrow> 'a ShaderWriter_scheme \<Rightarrow> 'a ShaderWriter_scheme" where
  "AddLine line sh = AddNewLine (AddExpression line sh)"

definition inc_scope :: "'a ShaderWriter_scheme \<Rightarrow> 'a ShaderWriter_scheme" where
  "inc_scope sh = sh\<lparr>scope := scope sh + 1\<rparr>"

definition dec_scope :: "'a ShaderWriter_scheme \<Rightarrow> 'a ShaderWriter_scheme" where
  "dec_scope sh = sh\<lparr>scope := scope sh - 1\<rparr>"

definition LOG_ERROR :: "string \<Rightarrow> GLSLGenerator \<Rightarrow> GLSLGenerator" where
  "LOG_ERROR msg sh = sh\<lparr>error_log := error_log sh @ [msg]\<rparr>"

subsection \<open>GLSLGenerator\<close>

text \<open>
  The constant members of \<^verbatim>\<open>GLSLGenerator\<close>. \<^verbatim>\<open>SwizzleData\<close> is an array of
  \<^verbatim>\<open>MAX_SWIZZLE_DATA_LENGTH\<close> words indexed by an operand descriptor id of at most seven
  bits, always in range; it is given decoded. The register getters are the callbacks
  \<^verbatim>\<open>RegGetter\<close>.
\<close>

record GLSLGenerator_args =
  gen_subroutines :: "Subroutine list"
  gen_program_code :: ProgramCode
  swizzle_data :: "u32 \<Rightarrow> SwizzlePattern"
  main_offset :: u32
  inputreg_getter :: "u32 \<Rightarrow> string"
  outputreg_getter :: "u32 \<Rightarrow> string"
  sanitize_mul :: bool

definition GetName :: "Subroutine \<Rightarrow> string" where
  "GetName s = ''sub_'' @ to_string (unat (sub_begin s)) @ ''_'' @ to_string (unat (sub_end s))"

definition selector_char :: "Selector \<Rightarrow> char" where
  "selector_char s =
     (case s of Sel_x \<Rightarrow> CHR ''x'' | Sel_y \<Rightarrow> CHR ''y'' | Sel_z \<Rightarrow> CHR ''z'' | Sel_w \<Rightarrow> CHR ''w'')"

definition GetSelectorSrc :: "(nat \<Rightarrow> Selector) \<Rightarrow> string" where
  "GetSelectorSrc getter = map (\<lambda>i. selector_char (getter i)) [0..<4]"

definition GetSelectorSrc1 :: "SwizzlePattern \<Rightarrow> string" where
  "GetSelectorSrc1 pattern = GetSelectorSrc (SelectorSrc1 pattern)"

definition GetSelectorSrc2 :: "SwizzlePattern \<Rightarrow> string" where
  "GetSelectorSrc2 pattern = GetSelectorSrc (SelectorSrc2 pattern)"

definition GetSelectorSrc3 :: "SwizzlePattern \<Rightarrow> string" where
  "GetSelectorSrc3 pattern = GetSelectorSrc (SelectorSrc3 pattern)"

text \<open>\<^verbatim>\<open>GetSubroutine\<close>: the \<^verbatim>\<open>ASSERT\<close> fails when the analyzer did not register the range.\<close>

definition GetSubroutine :: "GLSLGenerator_args \<Rightarrow> u32 \<Rightarrow> u32 \<Rightarrow> Failure + Subroutine" where
  "GetSubroutine args b e =
     (case subroutines_find (gen_subroutines args) b e of
        None \<Rightarrow> Inl AssertFailed
      | Some s \<Rightarrow> Inr s)"

definition EvaluateCondition :: "Instruction \<Rightarrow> string" where
  "EvaluateCondition flow_control =
     (let result_x = (if flow_refx flow_control then ''conditional_code.x''
                      else ''!conditional_code.x'');
          result_y = (if flow_refy flow_control then ''conditional_code.y''
                      else ''!conditional_code.y'')
      in case flow_op flow_control of
           JustX \<Rightarrow> result_x
         | JustY \<Rightarrow> result_y
         | _ \<Rightarrow>
             let and_or = (if flow_op flow_control = FlowOr then ''any'' else ''all'');
                 bvec =
                   (if flow_refx flow_control \<and> flow_refy flow_control then ''conditional_code''
                    else if \<not> flow_refx flow_control \<and> \<not> flow_refy flow_control
                      then ''not(conditional_code)''
                    else ''bvec2('' @ result_x @ '', '' @ result_y @ '')'')
             in and_or @ ''('' @ bvec @ '')'')"

text \<open>
  \<^verbatim>\<open>"xyz"[address_register_index - 1]\<close>; the index is a two-bit field and not 0 here, so
  it is 1, 2 or 3.
\<close>

definition address_component :: "u32 \<Rightarrow> char" where
  "address_component address_register_index =
     (if address_register_index = 1 then CHR ''x''
      else if address_register_index = 2 then CHR ''y''
      else CHR ''z'')"

definition GetSourceRegister :: "GLSLGenerator_args \<Rightarrow> SourceRegister \<Rightarrow> u32 \<Rightarrow> string" where
  "GetSourceRegister args source_reg address_register_index =
     (case source_reg of
        SrcInput index \<Rightarrow> inputreg_getter args index
      | SrcTemporary index \<Rightarrow> ''reg_tmp'' @ to_string (unat index)
      | SrcFloatUniform index \<Rightarrow>
          if address_register_index \<noteq> 0 then
            ''get_offset_register('' @ to_string (unat index) @ '', address_registers.''
              @ [address_component address_register_index] @ '')''
          else ''uniforms.f['' @ to_string (unat index) @ '']'')"

definition GetDestRegister :: "GLSLGenerator_args \<Rightarrow> DestRegister \<Rightarrow> string" where
  "GetDestRegister args dest_reg =
     (case dest_reg of
        DestOutput index \<Rightarrow> outputreg_getter args index
      | DestTemporary index \<Rightarrow> ''reg_tmp'' @ to_string (unat index))"

definition GetUniformBool :: "u32 \<Rightarrow> string" where
  "GetUniformBool index = ''uniforms.b['' @ to_string (unat index) @ '']''"

definition CallSubroutine :: "Subroutine \<Rightarrow> 'a ShaderWriter_scheme \<Rightarrow> 'a ShaderWriter_scheme" where
  "CallSubroutine subroutine sh =
     (if exit_method subroutine = AlwaysEnd then
        AddLine ''return true;'' (AddLine (GetName subroutine @ ''();'') sh)
      else if exit_method subroutine = Conditional then
        AddLine (''if ('' @ GetName subroutine @ ''()) { return true; }'') sh
      else AddLine (GetName subroutine @ ''();'') sh)"

definition SetDest ::
  "SwizzlePattern \<Rightarrow> string \<Rightarrow> string \<Rightarrow> nat \<Rightarrow> nat \<Rightarrow> 'a ShaderWriter_scheme
     \<Rightarrow> 'a ShaderWriter_scheme" where
  "SetDest swizzle reg val dest_num_components value_num_components sh =
     (let enabled = filter (DestComponentEnabled swizzle) [0..<dest_num_components];
          dest_mask_num_components = length enabled;
          dest_mask_swizzle = ''.'' @ map (\<lambda>i. ''xyzw'' ! i) enabled
      in if reg = [] \<or> dest_mask_num_components = 0 then sh
         else
           let dest = reg @ (if dest_num_components \<noteq> 1 then dest_mask_swizzle else []);
               src =
                 (if value_num_components = 1 then
                    (if dest_mask_num_components \<noteq> 1 then
                       ''vec'' @ to_string dest_mask_num_components @ ''('' @ val @ '')''
                     else val)
                  else if value_num_components \<noteq> dest_mask_num_components then
                    ''('' @ val @ '')'' @ dest_mask_swizzle
                  else val)
           in AddLine (dest @ '' = '' @ src @ '';'') sh)"

text \<open>The table \<^verbatim>\<open>cmp_ops\<close> of the \<^verbatim>\<open>CMP\<close> case, and the numeric value of an operator.\<close>

definition cmp_ops :: "CompareOp \<Rightarrow> (string \<times> string) option" where
  "cmp_ops op =
     (case op of
        Equal \<Rightarrow> Some (''=='', ''equal'')
      | NotEqual \<Rightarrow> Some (''!='', ''notEqual'')
      | LessThan \<Rightarrow> Some (''<'', ''lessThan'')
      | LessEqual \<Rightarrow> Some (''<='', ''lessThanEqual'')
      | GreaterThan \<Rightarrow> Some (''>'', ''greaterThan'')
      | GreaterEqual \<Rightarrow> Some (''>='', ''greaterThanEqual'')
      | _ \<Rightarrow> None)"

definition CompareOp_value :: "CompareOp \<Rightarrow> nat" where
  "CompareOp_value op =
     (case op of Equal \<Rightarrow> 0 | NotEqual \<Rightarrow> 1 | LessThan \<Rightarrow> 2 | LessEqual \<Rightarrow> 3
      | GreaterThan \<Rightarrow> 4 | GreaterEqual \<Rightarrow> 5 | Unk6 \<Rightarrow> 6 | Unk7 \<Rightarrow> 7)"

text \<open>
  \<^verbatim>\<open>GLSLGenerator::CompileInstr\<close>, in three parts after the cases of its outer
  \<^verbatim>\<open>switch\<close> on the opcode type. First the case \<^verbatim>\<open>OpCode::Type::Arithmetic\<close>.
\<close>

definition CompileInstr_Arithmetic ::
  "GLSLGenerator_args \<Rightarrow> Instruction \<Rightarrow> SwizzlePattern \<Rightarrow> GLSLGenerator
     \<Rightarrow> Failure + GLSLGenerator" where
  "CompileInstr_Arithmetic args instr swizzle sh =
     (let is_inverted = info_src_inversed instr;
          src1 = (if negate_src1 swizzle then ''-'' else [])
                 @ GetSourceRegister args (common_GetSrc1 instr is_inverted)
                     (if is_inverted then 0 else common_address_register_index instr)
                 @ ''.'' @ GetSelectorSrc1 swizzle;
          src2 = (if negate_src2 swizzle then ''-'' else [])
                 @ GetSourceRegister args (common_GetSrc2 instr is_inverted)
                     (if is_inverted then common_address_register_index instr else 0)
                 @ ''.'' @ GetSelectorSrc2 swizzle;
          dest_reg = GetDestRegister args (common_dest instr);
          op = effective_opcode instr
      in
        if op = ADD then Inr (SetDest swizzle dest_reg (src1 @ '' + '' @ src2) 4 4 sh)
        else if op = MUL then
          (if sanitize_mul args then
             Inr (SetDest swizzle dest_reg (''sanitize_mul('' @ src1 @ '', '' @ src2 @ '')'') 4 4 sh)
           else Inr (SetDest swizzle dest_reg (src1 @ '' * '' @ src2) 4 4 sh))
        else if op = FLR then Inr (SetDest swizzle dest_reg (''floor('' @ src1 @ '')'') 4 4 sh)
        else if op = MAX_op then
          (if sanitize_mul args then
             Inr (SetDest swizzle dest_reg
                    (''mix('' @ src2 @ '', '' @ src1 @ '', greaterThan('' @ src1 @ '', '' @ src2
                       @ ''))'') 4 4 sh)
           else Inr (SetDest swizzle dest_reg (''max('' @ src1 @ '', '' @ src2 @ '')'') 4 4 sh))
        else if op = MIN_op then
          (if sanitize_mul args then
             Inr (SetDest swizzle dest_reg
                    (''mix('' @ src2 @ '', '' @ src1 @ '', lessThan('' @ src1 @ '', '' @ src2
                       @ ''))'') 4 4 sh)
           else Inr (SetDest swizzle dest_reg (''min('' @ src1 @ '', '' @ src2 @ '')'') 4 4 sh))
        else if op = DP3 \<or> op = DP4 \<or> op = DPH \<or> op = DPHI then
          (let dot =
             (if op = DP3 then
                (if sanitize_mul args then
                   ''dot(vec3(sanitize_mul('' @ src1 @ '', '' @ src2 @ '')), vec3(1.0))''
                 else ''dot(vec3('' @ src1 @ ''), vec3('' @ src2 @ ''))'')
              else
                (if sanitize_mul args then
                   (let src1' = (if op = DPH \<or> op = DPHI then ''vec4('' @ src1 @ ''.xyz, 1.0)''
                                 else src1)
                    in ''dot(sanitize_mul('' @ src1' @ '', '' @ src2 @ ''), vec4(1.0))'')
                 else ''dot('' @ src1 @ '', '' @ src2 @ '')''))
           in Inr (SetDest swizzle dest_reg dot 4 1 sh))
        else if op = RCP then
          (let sh1 = (if \<not> sanitize_mul args then AddLine (''if ('' @ src1 @ ''.x != 0.0)'') sh
                      else sh)
           in Inr (SetDest swizzle dest_reg (''(1.0 / '' @ src1 @ ''.x)'') 4 1 sh1))
        else if op = RSQ then
          (let sh1 = (if \<not> sanitize_mul args then AddLine (''if ('' @ src1 @ ''.x > 0.0)'') sh
                      else sh)
           in Inr (SetDest swizzle dest_reg (''inversesqrt('' @ src1 @ ''.x)'') 4 1 sh1))
        else if op = MOVA then
          Inr (SetDest swizzle ''address_registers'' (''ivec2('' @ src1 @ '')'') 2 2 sh)
        else if op = MOV then Inr (SetDest swizzle dest_reg src1 4 4 sh)
        else if op = SGE \<or> op = SGEI then
          Inr (SetDest swizzle dest_reg
                 (''vec4(greaterThanEqual('' @ src1 @ '', '' @ src2 @ ''))'') 4 4 sh)
        else if op = SLT \<or> op = SLTI then
          Inr (SetDest swizzle dest_reg
                 (''vec4(lessThan('' @ src1 @ '', '' @ src2 @ ''))'') 4 4 sh)
        else if op = CMP then
          (let op_x = compare_op_x instr;
               op_y = compare_op_y instr
           in case cmp_ops op_x of
                None \<Rightarrow>
                  Inr (LOG_ERROR (''Unknown compare mode '' @ to_string (CompareOp_value op_x)) sh)
              | Some (sym_x, func_x) \<Rightarrow>
                  (case cmp_ops op_y of
                     None \<Rightarrow>
                       Inr (LOG_ERROR
                              (''Unknown compare mode '' @ to_string (CompareOp_value op_y)) sh)
                   | Some (sym_y, func_y) \<Rightarrow>
                       if op_x \<noteq> op_y then
                         Inr (AddLine (''conditional_code.y = '' @ src1 @ ''.y '' @ sym_y @ '' ''
                                         @ src2 @ ''.y;'')
                               (AddLine (''conditional_code.x = '' @ src1 @ ''.x '' @ sym_x
                                           @ '' '' @ src2 @ ''.x;'') sh))
                       else
                         Inr (AddLine (''conditional_code = '' @ func_x @ ''(vec2('' @ src1
                                         @ ''), vec2('' @ src2 @ ''));'') sh)))
        else if op = EX2 then Inr (SetDest swizzle dest_reg (''exp2('' @ src1 @ ''.x)'') 4 1 sh)
        else if op = LG2 then Inr (SetDest swizzle dest_reg (''log2('' @ src1 @ ''.x)'') 4 1 sh)
        else Inl (DecompileFail ''Unhandled instruction''))"

text \<open>
  The case \<^verbatim>\<open>OpCode::Type::MultiplyAdd\<close>. The destination field has five bits, so it
  names an output or a temporary register and the third alternative of the source (the
  empty name, for a value of 0x20 or more) has no input.
\<close>

definition CompileInstr_MultiplyAdd ::
  "GLSLGenerator_args \<Rightarrow> Instruction \<Rightarrow> SwizzlePattern \<Rightarrow> GLSLGenerator
     \<Rightarrow> Failure + GLSLGenerator" where
  "CompileInstr_MultiplyAdd args instr swizzle sh =
     (if effective_opcode instr = MAD \<or> effective_opcode instr = MADI then
        let is_inverted = (effective_opcode instr = MADI);
            src1 = (if negate_src1 swizzle then ''-'' else [])
                   @ GetSourceRegister args (mad_GetSrc1 instr is_inverted) 0
                   @ ''.'' @ GetSelectorSrc1 swizzle;
            src2 = (if negate_src2 swizzle then ''-'' else [])
                   @ GetSourceRegister args (mad_GetSrc2 instr is_inverted)
                       (if is_inverted then 0 else mad_address_register_index instr)
                   @ ''.'' @ GetSelectorSrc2 swizzle;
            src3 = (if negate_src3 swizzle then ''-'' else [])
                   @ GetSourceRegister args (mad_GetSrc3 instr is_inverted)
                       (if is_inverted then mad_address_register_index instr else 0)
                   @ ''.'' @ GetSelectorSrc3 swizzle;
            dest_reg =
              (case mad_dest instr of
                 DestOutput index \<Rightarrow> outputreg_getter args index
               | DestTemporary index \<Rightarrow> ''reg_tmp'' @ to_string (unat index))
        in
          if sanitize_mul args then
            Inr (SetDest swizzle dest_reg
                   (''sanitize_mul('' @ src1 @ '', '' @ src2 @ '') + '' @ src3) 4 4 sh)
          else
            Inr (SetDest swizzle dest_reg (src1 @ '' * '' @ src2 @ '' + '' @ src3) 4 4 sh)
      else Inl (DecompileFail ''Unhandled instruction''))"

text \<open>
  The \<^verbatim>\<open>default\<close> case of the outer \<^verbatim>\<open>switch\<close>: the flow-control instructions. It returns
  the updated \<^verbatim>\<open>offset\<close> with the state. The messages logged right before a
  \<^verbatim>\<open>throw\<close> are not kept.
\<close>

definition CompileInstr_FlowControl ::
  "GLSLGenerator_args \<Rightarrow> Instruction \<Rightarrow> u32 \<Rightarrow> GLSLGenerator
     \<Rightarrow> Failure + (u32 \<times> GLSLGenerator)" where
  "CompileInstr_FlowControl args instr offset sh =
     (let op = opcode instr;
          program_end = PROGRAM_END (gen_program_code args);
          dest_offset = flow_dest_offset instr;
          num_instructions = flow_num_instructions instr
      in
        if op = END then Inr (program_end - 1, AddLine ''return true;'' sh)
        else if op = JMPC \<or> op = JMPU then
          (let condition =
                 (if op = JMPC then EvaluateCondition instr
                  else
                    let invert_test = bit num_instructions 0
                    in (if invert_test then ''!'' else [])
                       @ GetUniformBool (flow_bool_uniform_id instr));
               sh1 = inc_scope (AddLine (''if ('' @ condition @ '') {'') sh);
               sh2 = AddLine (''{ jmp_to = '' @ to_string (unat dest_offset) @ ''u; break; }'') sh1;
               sh3 = AddLine ''}'' (dec_scope sh2)
           in Inr (offset, sh3))
        else if op = CALL \<or> op = CALLC \<or> op = CALLU then
          (let condition =
                 (if op = CALLC then EvaluateCondition instr
                  else if op = CALLU then GetUniformBool (flow_bool_uniform_id instr)
                  else []);
               sh1 = inc_scope (if condition = [] then AddLine ''{'' sh
                                else AddLine (''if ('' @ condition @ '') {'') sh)
           in case GetSubroutine args dest_offset (dest_offset + num_instructions) of
                Inl err \<Rightarrow> Inl err
              | Inr call_sub \<Rightarrow>
                  let sh2 = CallSubroutine call_sub sh1;
                      offset1 = (if op = CALL \<and> exit_method call_sub = AlwaysEnd
                                 then program_end - 1 else offset);
                      sh3 = AddLine ''}'' (dec_scope sh2)
                  in Inr (offset1, sh3))
        else if op = NOP then Inr (offset, sh)
        else if op = IFC \<or> op = IFU then
          (let condition =
                 (if op = IFC then EvaluateCondition instr
                  else GetUniformBool (flow_bool_uniform_id instr));
               if_offset = offset + 1;
               else_offset = dest_offset;
               endif_offset = dest_offset + num_instructions;
               sh1 = inc_scope (AddLine (''if ('' @ condition @ '') {'') sh)
           in case GetSubroutine args if_offset else_offset of
                Inl err \<Rightarrow> Inl err
              | Inr if_sub \<Rightarrow>
                  let sh2 = CallSubroutine if_sub sh1;
                      offset1 = else_offset - 1
                  in
                    if num_instructions \<noteq> 0 then
                      (let sh3 = inc_scope (AddLine ''} else {'' (dec_scope sh2))
                       in case GetSubroutine args else_offset endif_offset of
                            Inl err \<Rightarrow> Inl err
                          | Inr else_sub \<Rightarrow>
                              let sh4 = CallSubroutine else_sub sh3;
                                  offset2 = endif_offset - 1;
                                  offset3 = (if exit_method if_sub = AlwaysEnd
                                                \<and> exit_method else_sub = AlwaysEnd
                                             then program_end - 1 else offset2)
                              in Inr (offset3, AddLine ''}'' (dec_scope sh4)))
                    else Inr (offset1, AddLine ''}'' (dec_scope sh2)))
        else if op = LOOP then
          (let int_uniform = ''uniforms.i['' @ to_string (unat (flow_int_uniform_id instr)) @ '']'';
               sh1 = AddLine (''address_registers.z = int('' @ int_uniform @ ''.y);'') sh;
               loop_var = ''loop'' @ to_string (unat offset);
               sh2 = inc_scope
                       (AddLine (''for (uint '' @ loop_var @ '' = 0u; '' @ loop_var @ '' <= ''
                                   @ int_uniform @ ''.x; address_registers.z += int(''
                                   @ int_uniform @ ''.z), ++'' @ loop_var @ '') {'') sh1)
           in case GetSubroutine args (offset + 1) (dest_offset + 1) of
                Inl err \<Rightarrow> Inl err
              | Inr loop_sub \<Rightarrow>
                  let sh3 = CallSubroutine loop_sub sh2;
                      offset1 = dest_offset;
                      sh4 = AddLine ''}'' (dec_scope sh3);
                      offset2 = (if exit_method loop_sub = AlwaysEnd then program_end - 1
                                 else offset1)
                  in Inr (offset2, sh4))
        else if op = EMIT \<or> op = SETEMIT then
          Inr (offset, LOG_ERROR ''Geometry shader operation detected in vertex shader'' sh)
        else Inl (DecompileFail ''Unhandled instruction''))"

text \<open>\<^verbatim>\<open>GLSLGenerator::CompileInstr\<close>: the offset of the next instruction and the new state.\<close>

definition CompileInstr ::
  "GLSLGenerator_args \<Rightarrow> u32 \<Rightarrow> GLSLGenerator \<Rightarrow> Failure + (u32 \<times> GLSLGenerator)" where
  "CompileInstr args offset sh =
     (case code_at (gen_program_code args) offset of
        Inl err \<Rightarrow> Inl err
      | Inr instr \<Rightarrow>
          let swizzle_offset = (if info_type instr = MultiplyAdd then mad_operand_desc_id instr
                                else common_operand_desc_id instr);
              swizzle = swizzle_data args swizzle_offset;
              sh1 = AddLine (''// '' @ to_string (unat offset) @ '': '' @ info_name instr) sh
          in
            if info_type instr = Arithmetic then
              (case CompileInstr_Arithmetic args instr swizzle sh1 of
                 Inl err \<Rightarrow> Inl err
               | Inr sh2 \<Rightarrow> Inr (offset + 1, sh2))
            else if info_type instr = MultiplyAdd then
              (case CompileInstr_MultiplyAdd args instr swizzle sh1 of
                 Inl err \<Rightarrow> Inl err
               | Inr sh2 \<Rightarrow> Inr (offset + 1, sh2))
            else
              (case CompileInstr_FlowControl args instr offset sh1 of
                 Inl err \<Rightarrow> Inl err
               | Inr (offset1, sh2) \<Rightarrow> Inr (offset1 + 1, sh2)))"

text \<open>
  \<^verbatim>\<open>GLSLGenerator::CompileRange\<close>. Its loop runs while the program counter is below the
  limit and nothing bounds the number of turns, so it is a partial function: \<open>None\<close> is
  a loop that never ends.
\<close>

partial_function (option) CompileRange_loop ::
  "GLSLGenerator_args \<Rightarrow> u32 \<Rightarrow> u32 \<Rightarrow> GLSLGenerator \<Rightarrow> (Failure + (u32 \<times> GLSLGenerator)) option"
where
  "CompileRange_loop args limit program_counter sh =
     (if program_counter < limit then
        (case CompileInstr args program_counter sh of
           Inl err \<Rightarrow> Some (Inl err)
         | Inr next \<Rightarrow> CompileRange_loop args limit (fst next) (snd next))
      else Some (Inr (program_counter, sh)))"

declare CompileRange_loop.simps [code]

definition CompileRange ::
  "GLSLGenerator_args \<Rightarrow> u32 \<Rightarrow> u32 \<Rightarrow> GLSLGenerator \<Rightarrow> (u32 \<times> GLSLGenerator) result" where
  "CompileRange args b e sh =
     CompileRange_loop args (if b > e then PROGRAM_END (gen_program_code args) else e) b sh"

text \<open>
  The loop \<^verbatim>\<open>for (auto label : labels)\<close> of \<^verbatim>\<open>Generate\<close>, which inserts into the set it
  walks: after the body for \<open>label\<close> the iterator moves to the least label above it in
  the set as it is then. \<open>labels_lower_bound\<close> is \<^verbatim>\<open>std::set::lower_bound\<close>.
\<close>

definition labels_lower_bound :: "u32 list \<Rightarrow> u32 \<Rightarrow> u32 option" where
  "labels_lower_bound ls v = find (\<lambda>l. v \<le> l) ls"

definition labels_next :: "u32 list \<Rightarrow> u32 \<Rightarrow> u32 option" where
  "labels_next ls label = find (\<lambda>l. label < l) ls"

function Generate_labels ::
  "GLSLGenerator_args \<Rightarrow> Subroutine \<Rightarrow> u32 list \<Rightarrow> u32 \<Rightarrow> GLSLGenerator \<Rightarrow> GLSLGenerator result"
where
  "Generate_labels args subroutine ls label sh =
     (let sh1 = inc_scope (AddLine (''case '' @ to_string (unat label) @ ''u: {'') sh);
          next_label = (case labels_lower_bound ls (label + 1) of
                          None \<Rightarrow> sub_end subroutine
                        | Some l \<Rightarrow> l)
      in bind (CompileRange args label next_label sh1)
           (\<lambda>(compile_end, sh2).
              let grown = (compile_end > next_label
                             \<and> compile_end \<noteq> PROGRAM_END (gen_program_code args));
                  sh3 = (if grown then
                           AddLine (''{ jmp_to = '' @ to_string (unat compile_end) @ ''u; break; }'')
                             sh2
                         else sh2);
                  ls1 = (if grown then labels_insert compile_end ls else ls);
                  sh4 = AddLine ''}'' (dec_scope sh3)
              in case labels_next ls1 label of
                   None \<Rightarrow> return sh4
                 | Some l \<Rightarrow> Generate_labels args subroutine ls1 l sh4))"
  by pat_completeness auto
termination
proof (relation "measure (\<lambda>(args, subroutine, ls, label, sh). 2 ^ 32 - unat label)")
  show "wf (measure (\<lambda>(args, subroutine, ls, label, sh). 2 ^ 32 - unat (label :: u32)))"
    by simp
next
  fix args :: GLSLGenerator_args and subroutine :: Subroutine and ls ls1 :: "u32 list"
    and label l :: u32 and sh sh4 :: GLSLGenerator
  assume "labels_next ls1 label = Some l"
  then have "label < l"
    by (auto simp: labels_next_def find_Some_iff)
  then have "unat label < unat l"
    by (simp add: word_less_nat_alt)
  moreover have "unat l < 2 ^ 32"
    using unsigned_less [of l] by simp
  ultimately show "((args, subroutine, ls1, l, sh4), (args, subroutine, ls, label, sh))
      \<in> measure (\<lambda>(args, subroutine, ls, label, sh). 2 ^ 32 - unat label)"
    by simp
qed

declare Generate_labels.simps [simp del]

text \<open>A sequence of writer calls, applied in the order written.\<close>

definition run :: "('a \<Rightarrow> 'a) list \<Rightarrow> 'a \<Rightarrow> 'a" where
  "run steps sh = foldl (\<lambda>s step. step s) sh steps"

text \<open>
  The body of the last loop of \<^verbatim>\<open>Generate\<close> (the definition of one subroutine), and the
  loop.
\<close>

definition Generate_subroutine ::
  "GLSLGenerator_args \<Rightarrow> Subroutine \<Rightarrow> GLSLGenerator \<Rightarrow> GLSLGenerator result" where
  "Generate_subroutine args subroutine sh =
     (let sh1 = inc_scope (AddLine (''bool '' @ GetName subroutine @ ''() {'') sh)
      in bind
           (if labels subroutine = [] then
              bind (CompileRange args (sub_begin subroutine) (sub_end subroutine) sh1)
                (\<lambda>(compile_end, sh2).
                   return (if compile_end \<noteq> PROGRAM_END (gen_program_code args)
                           then AddLine ''return false;'' sh2 else sh2))
            else
              (case labels_insert (sub_begin subroutine) (labels subroutine) of
                 [] \<Rightarrow> return sh1
               | first # rest \<Rightarrow>
                   bind (Generate_labels args subroutine (first # rest) first
                           (run [AddLine (''uint jmp_to = '' @ to_string (unat (sub_begin subroutine))
                                            @ ''u;''),
                                 AddLine ''while (true) {'',
                                 inc_scope,
                                 AddLine ''switch (jmp_to) {''] sh1))
                     (\<lambda>sh2.
                        return (run [AddLine ''default: return false;'',
                                     AddLine ''}'',
                                     dec_scope,
                                     AddLine ''}'',
                                     AddLine ''return false;''] sh2))))
           (\<lambda>sh3. return (AddLine (''}'' @ [newline]) (dec_scope sh3))))"

fun Generate_definitions ::
  "GLSLGenerator_args \<Rightarrow> Subroutine list \<Rightarrow> GLSLGenerator \<Rightarrow> GLSLGenerator result" where
  "Generate_definitions args [] sh = return sh"
| "Generate_definitions args (subroutine # rest) sh =
     bind (Generate_subroutine args subroutine sh) (\<lambda>sh1. Generate_definitions args rest sh1)"

text \<open>\<^verbatim>\<open>GLSLGenerator::Generate\<close>, from an empty writer.\<close>

definition Generate :: "GLSLGenerator_args \<Rightarrow> GLSLGenerator result" where
  "Generate args =
     (let sh0 = \<lparr>shader_source = [], scope = 0, error_log = []\<rparr>;
          sh1 = (if sanitize_mul args then
                   run [AddLine ''vec4 sanitize_mul(vec4 lhs, vec4 rhs) {'',
                        inc_scope,
                        AddLine ''vec4 product = lhs * rhs;'',
                        AddLine (''return mix(product, mix(mix(vec4(0.0), product, isnan(rhs)), ''
                                 @ ''product, isnan(lhs)), isnan(product));''),
                        dec_scope,
                        AddLine (''}'' @ [newline])] sh0
                 else sh0);
          sh2 = run [AddLine ''vec4 get_offset_register(int base_index, int offset) {'',
                     inc_scope,
                     AddLine ''int fixed_offset = offset >= -128 && offset <= 127 ? offset : 0;'',
                     AddLine ''uint index = uint((base_index + fixed_offset) & 0x7F);'',
                     AddLine ''return index < 96u ? uniforms.f[index] : vec4(1.0);'',
                     dec_scope,
                     AddLine (''}'' @ [newline]),
                     AddLine ''bvec2 conditional_code = bvec2(false);'',
                     AddLine ''ivec3 address_registers = ivec3(0);''] sh1;
          sh3 = foldl (\<lambda>s i. AddLine (''vec4 reg_tmp'' @ to_string i
                                       @ '' = vec4(0.0, 0.0, 0.0, 1.0);'') s) sh2 [0..<16];
          sh4 = AddNewLine sh3;
          sh5 = foldl (\<lambda>s subroutine. AddLine (''bool '' @ GetName subroutine @ ''();'') s) sh4
                  (gen_subroutines args);
          sh6 = run [AddNewLine, AddLine ''bool exec_shader() {'', inc_scope] sh5
      in case GetSubroutine args (main_offset args) (PROGRAM_END (gen_program_code args)) of
           Inl err \<Rightarrow> throw err
         | Inr program_main \<Rightarrow>
             Generate_definitions args (gen_subroutines args)
               (run [CallSubroutine program_main, dec_scope, AddLine (''}'' @ [newline])] sh6))"

text \<open>
  \<^verbatim>\<open>DecompileProgram\<close>. The analysis is run with the depth bound \<open>analysis_fuel\<close>, which
  is enough for every program (lemma \<open>analysis_returns\<close> below). A caught
  \<^verbatim>\<open>DecompileFail\<close> gives the empty string; an \<open>Inl\<close> result is a failure that is not
  caught, \<open>None\<close> a call that does not return.
\<close>

definition analysis_fuel :: nat where
  "analysis_fuel = 2 ^ 100"

definition DecompileProgram ::
  "ProgramCode \<Rightarrow> (u32 \<Rightarrow> SwizzlePattern) \<Rightarrow> u32 \<Rightarrow> (u32 \<Rightarrow> string) \<Rightarrow> (u32 \<Rightarrow> string) \<Rightarrow> bool
     \<Rightarrow> string result" where
  "DecompileProgram program_code swizzles main inputreg outputreg sanitize =
     (case bind (ControlFlowAnalyzer analysis_fuel program_code main)
             (\<lambda>subs.
           bind (Generate \<lparr>gen_subroutines = subs, gen_program_code = program_code,
                            swizzle_data = swizzles, main_offset = main,
                            inputreg_getter = inputreg, outputreg_getter = outputreg,
                            sanitize_mul = sanitize\<rparr>)
             (\<lambda>generator. return (shader_source generator)))
      of
        Some (Inl (DecompileFail msg)) \<Rightarrow> return []
      | r \<Rightarrow> r)"

section \<open>OpenGL pipeline cache: asynchronous builds\<close>

text \<open>
  Source: \<^verbatim>\<open>video_core/renderer_opengl/gl_shader_cache.cpp\<close> and
  \<^verbatim>\<open>video_core/renderer_vulkan/vk_graphics_pipeline.cpp\<close>.
  A pipeline is identified by its key; \<^verbatim>\<open>current_pipeline\<close> points into the cache, so it
  is modelled by the key of the entry it points to. A cache entry may hold a null
  \<^verbatim>\<open>unique_ptr\<close> (a failed build), which is \<open>None\<close> inside the map.
\<close>

record 'k GraphicsPipeline =
  Key :: 'k
  IsBuilt :: bool

text \<open>The guest registers and draw state that \<^verbatim>\<open>BuiltPipeline\<close> reads.\<close>

record DrawState =
  zeta_enable :: u32
  index_buffer_count :: u32
  vertex_buffer_count :: u32

record 'k ShaderCache =
  use_asynchronous_shaders :: bool
  graphics_key :: 'k
  current_pipeline :: "'k option"
  graphics_cache :: "'k \<rightharpoonup> 'k GraphicsPipeline option"

text \<open>\<^verbatim>\<open>ShaderCache::BuiltPipeline\<close>; \<open>None\<close> is the null pointer.\<close>

definition BuiltPipeline ::
  "'k ShaderCache \<Rightarrow> DrawState \<Rightarrow> 'k GraphicsPipeline \<Rightarrow> 'k GraphicsPipeline option" where
  "BuiltPipeline c d pipeline =
     (if IsBuilt pipeline then Some pipeline
      else if \<not> use_asynchronous_shaders c then Some pipeline
      else if zeta_enable d \<noteq> 0 then None
      else if index_buffer_count d \<le> 6 \<or> vertex_buffer_count d \<le> 6 then Some pipeline
      else None)"

text \<open>
  \<^verbatim>\<open>ShaderCache::CurrentGraphicsPipelineSlowPath\<close>. \<open>created\<close> is what
  \<^verbatim>\<open>CreateGraphicsPipeline()\<close> returns when it is called (null on a failed build).
\<close>

definition CurrentGraphicsPipelineSlowPath ::
  "'k GraphicsPipeline option \<Rightarrow> DrawState \<Rightarrow> 'k ShaderCache
     \<Rightarrow> 'k GraphicsPipeline option \<times> 'k ShaderCache" where
  "CurrentGraphicsPipelineSlowPath created d c =
     (let (pipeline, c1) =
        (case graphics_cache c (graphics_key c) of
           None \<Rightarrow> (created, c\<lparr>graphics_cache := (graphics_cache c)(graphics_key c \<mapsto> created)\<rparr>)
         | Some p \<Rightarrow> (p, c))
      in case pipeline of
           None \<Rightarrow> (None, c1)
         | Some p \<Rightarrow> (BuiltPipeline c1 d p, c1\<lparr>current_pipeline := Some (graphics_key c1)\<rparr>))"

text \<open>
  \<^verbatim>\<open>ShaderCache::CurrentGraphicsPipeline\<close>. \<open>refreshed\<close> is the result of
  \<^verbatim>\<open>RefreshStages\<close> and \<open>key\<close> the key recomputed from the live registers. Entries are
  never erased from the cache, so the entry \<^verbatim>\<open>current_pipeline\<close> points to exists.
\<close>

definition CurrentGraphicsPipeline ::
  "bool \<Rightarrow> 'k \<Rightarrow> 'k GraphicsPipeline option \<Rightarrow> DrawState \<Rightarrow> 'k ShaderCache
     \<Rightarrow> 'k GraphicsPipeline option \<times> 'k ShaderCache" where
  "CurrentGraphicsPipeline refreshed key created d c =
     (if \<not> refreshed then (None, c\<lparr>current_pipeline := None\<rparr>)
      else
        let c1 = c\<lparr>graphics_key := key\<rparr> in
        case current_pipeline c1 of
          Some k \<Rightarrow>
            (case graphics_cache c1 k of
               Some (Some p) \<Rightarrow>
                 if graphics_key c1 = Key p then (BuiltPipeline c1 d p, c1)
                 else CurrentGraphicsPipelineSlowPath created d c1
             | _ \<Rightarrow> CurrentGraphicsPipelineSlowPath created d c1)
        | None \<Rightarrow> CurrentGraphicsPipelineSlowPath created d c1)"

text \<open>
  \<^verbatim>\<open>GraphicsPipeline::ConfigureDraw\<close> (Vulkan): the commands it records on the
  scheduler. A pipeline that is not built yet records a wait for the build first.
\<close>

datatype SchedulerCommand = RequestRenderpass | WaitForBuild | BindAndDraw

definition ConfigureDraw :: "'k GraphicsPipeline \<Rightarrow> SchedulerCommand list" where
  "ConfigureDraw p =
     [RequestRenderpass] @ (if \<not> IsBuilt p then [WaitForBuild] else []) @ [BindAndDraw]"

section \<open>SPIR-V backend: floating-point comparisons and clamps\<close>

text \<open>
  Source: \<^verbatim>\<open>shader_recompiler/backend/spirv/emit_spirv_floating_point.cpp\<close>.
  Every \<^verbatim>\<open>ctx.OpX(type, operands)\<close> call appends one instruction and returns its result
  id; the emitted code is modelled by the expression tree of those instructions, an
  operand that was emitted earlier being \<open>Arg n\<close>.
\<close>

datatype SType = U1 | F16 | F32 | F64

datatype 'a fpval = NaN | Num 'a

datatype 'a Id =
    Arg nat
  | Constant SType 'a
  | OpFMin SType "'a Id" "'a Id"
  | OpFMax SType "'a Id" "'a Id"
  | OpFClamp SType "'a Id" "'a Id" "'a Id"
  | OpIsNan SType "'a Id"
  | OpLogicalNot SType "'a Id"
  | OpLogicalAnd SType "'a Id" "'a Id"
  | OpLogicalOr SType "'a Id" "'a Id"
  | OpFOrdEqual SType "'a Id" "'a Id"
  | OpFUnordEqual SType "'a Id" "'a Id"
  | OpFOrdNotEqual SType "'a Id" "'a Id"
  | OpFUnordNotEqual SType "'a Id" "'a Id"
  | OpFOrdLessThan SType "'a Id" "'a Id"
  | OpFUnordLessThan SType "'a Id" "'a Id"
  | OpFOrdGreaterThan SType "'a Id" "'a Id"
  | OpFUnordGreaterThan SType "'a Id" "'a Id"
  | OpFOrdLessThanEqual SType "'a Id" "'a Id"
  | OpFUnordLessThanEqual SType "'a Id" "'a Id"
  | OpFOrdGreaterThanEqual SType "'a Id" "'a Id"
  | OpFUnordGreaterThanEqual SType "'a Id" "'a Id"

record Profile =
  has_broken_spirv_clamp :: bool
  ignore_nan_fp_comparisons :: bool

definition Clamp :: "Profile \<Rightarrow> SType \<Rightarrow> 'a Id \<Rightarrow> 'a Id \<Rightarrow> 'a Id \<Rightarrow> 'a Id" where
  "Clamp profile type val zero one =
     (if has_broken_spirv_clamp profile then OpFMin type (OpFMax type val zero) one
      else OpFClamp type val zero one)"

definition FPOrdNotEqual :: "Profile \<Rightarrow> 'a Id \<Rightarrow> 'a Id \<Rightarrow> 'a Id" where
  "FPOrdNotEqual profile lhs rhs =
     (if ignore_nan_fp_comparisons profile then
        let comp = OpFOrdEqual U1 lhs rhs;
            lhs_not_nan = OpLogicalNot U1 (OpIsNan U1 lhs);
            rhs_not_nan = OpLogicalNot U1 (OpIsNan U1 rhs)
        in OpLogicalAnd U1 (OpLogicalAnd U1 comp lhs_not_nan) rhs_not_nan
      else OpFOrdNotEqual U1 lhs rhs)"

definition FPUnordCompare ::
  "(SType \<Rightarrow> 'a Id \<Rightarrow> 'a Id \<Rightarrow> 'a Id) \<Rightarrow> Profile \<Rightarrow> 'a Id \<Rightarrow> 'a Id \<Rightarrow> 'a Id" where
  "FPUnordCompare comp_func profile lhs rhs =
     (if ignore_nan_fp_comparisons profile then
        let lhs_nan = OpIsNan U1 lhs;
            rhs_nan = OpIsNan U1 rhs;
            comp = comp_func U1 lhs rhs
        in OpLogicalOr U1 (OpLogicalOr U1 comp lhs_nan) rhs_nan
      else comp_func U1 lhs rhs)"

text \<open>
  The comparison emitters \<^verbatim>\<open>EmitFP<Op>16\<close>, \<^verbatim>\<open>EmitFP<Op>32\<close> and \<^verbatim>\<open>EmitFP<Op>64\<close>:
  the three widths of one opcode have the same body, so one function per opcode family
  stands for the three.
\<close>

datatype FPCompare =
    FPOrdEqual | FPUnordEqual | FPOrdNotEqual_op | FPUnordNotEqual
  | FPOrdLessThan | FPUnordLessThan | FPOrdGreaterThan | FPUnordGreaterThan
  | FPOrdLessThanEqual | FPUnordLessThanEqual | FPOrdGreaterThanEqual | FPUnordGreaterThanEqual

fun EmitFPCompare :: "FPCompare \<Rightarrow> Profile \<Rightarrow> 'a Id \<Rightarrow> 'a Id \<Rightarrow> 'a Id" where
  "EmitFPCompare FPOrdEqual profile lhs rhs = OpFOrdEqual U1 lhs rhs"
| "EmitFPCompare FPUnordEqual profile lhs rhs = FPUnordCompare OpFUnordEqual profile lhs rhs"
| "EmitFPCompare FPOrdNotEqual_op profile lhs rhs = FPOrdNotEqual profile lhs rhs"
| "EmitFPCompare FPUnordNotEqual profile lhs rhs = OpFUnordNotEqual U1 lhs rhs"
| "EmitFPCompare FPOrdLessThan profile lhs rhs = OpFOrdLessThan U1 lhs rhs"
| "EmitFPCompare FPUnordLessThan profile lhs rhs =
     FPUnordCompare OpFUnordLessThan profile lhs rhs"
| "EmitFPCompare FPOrdGreaterThan profile lhs rhs = OpFOrdGreaterThan U1 lhs rhs"
| "EmitFPCompare FPUnordGreaterThan profile lhs rhs =
     FPUnordCompare OpFUnordGreaterThan profile lhs rhs"
| "EmitFPCompare FPOrdLessThanEqual profile lhs rhs = OpFOrdLessThanEqual U1 lhs rhs"
| "EmitFPCompare FPUnordLessThanEqual profile lhs rhs =
     FPUnordCompare OpFUnordLessThanEqual profile lhs rhs"
| "EmitFPCompare FPOrdGreaterThanEqual profile lhs rhs = OpFOrdGreaterThanEqual U1 lhs rhs"
| "EmitFPCompare FPUnordGreaterThanEqual profile lhs rhs =
     FPUnordCompare OpFUnordGreaterThanEqual profile lhs rhs"

text \<open>
  The Saturate and Clamp emitters. A constant is modelled by the number it denotes:
  \<^verbatim>\<open>u16{0}\<close> and \<^verbatim>\<open>u16{0x3c00}\<close> are the binary16 encodings of 0.0 and 1.0.
\<close>

definition EmitFPSaturate16 :: "Profile \<Rightarrow> ('a::linordered_idom) Id \<Rightarrow> 'a Id" where
  "EmitFPSaturate16 profile val = Clamp profile F16 val (Constant F16 0) (Constant F16 1)"

definition EmitFPSaturate32 :: "Profile \<Rightarrow> ('a::linordered_idom) Id \<Rightarrow> 'a Id" where
  "EmitFPSaturate32 profile val = Clamp profile F32 val (Constant F32 0) (Constant F32 1)"

definition EmitFPSaturate64 :: "Profile \<Rightarrow> ('a::linordered_idom) Id \<Rightarrow> 'a Id" where
  "EmitFPSaturate64 profile val = Clamp profile F64 val (Constant F64 0) (Constant F64 1)"

definition EmitFPClamp16 :: "Profile \<Rightarrow> 'a Id \<Rightarrow> 'a Id \<Rightarrow> 'a Id \<Rightarrow> 'a Id" where
  "EmitFPClamp16 profile val min_value max_value = Clamp profile F16 val min_value max_value"

definition EmitFPClamp32 :: "Profile \<Rightarrow> 'a Id \<Rightarrow> 'a Id \<Rightarrow> 'a Id \<Rightarrow> 'a Id" where
  "EmitFPClamp32 profile val min_value max_value = Clamp profile F32 val min_value max_value"

definition EmitFPClamp64 :: "Profile \<Rightarrow> 'a Id \<Rightarrow> 'a Id \<Rightarrow> 'a Id \<Rightarrow> 'a Id" where
  "EmitFPClamp64 profile val min_value max_value = Clamp profile F64 val min_value max_value"

subsection \<open>What the emitted instructions compute\<close>

text \<open>
  The meaning of the SPIR-V instructions, after the SPIR-V and GLSL.std.450
  specifications. A floating-point value is a NaN or a number, given by its place in the
  numeric order. An ordered comparison holds when neither operand is a NaN and the
  relation holds; an unordered one when an operand is a NaN or the relation holds.
  \<^verbatim>\<open>FMin\<close>, \<^verbatim>\<open>FMax\<close> and \<^verbatim>\<open>FClamp\<close> have no defined result on a NaN operand, and
  \<^verbatim>\<open>FClamp\<close> none when its lower bound exceeds its upper bound: evaluation has no value
  there (\<open>None\<close>), as it has none for an ill-typed tree.
\<close>

datatype 'a sval = B bool | F "'a fpval"

definition ord_cmp :: "('a \<Rightarrow> 'a \<Rightarrow> bool) \<Rightarrow> 'a sval option \<Rightarrow> 'a sval option \<Rightarrow> 'a sval option" where
  "ord_cmp rel x y =
     (case (x, y) of
        (Some (F (Num a)), Some (F (Num b))) \<Rightarrow> Some (B (rel a b))
      | (Some (F _), Some (F _)) \<Rightarrow> Some (B False)
      | _ \<Rightarrow> None)"

definition unord_cmp :: "('a \<Rightarrow> 'a \<Rightarrow> bool) \<Rightarrow> 'a sval option \<Rightarrow> 'a sval option \<Rightarrow> 'a sval option" where
  "unord_cmp rel x y =
     (case (x, y) of
        (Some (F (Num a)), Some (F (Num b))) \<Rightarrow> Some (B (rel a b))
      | (Some (F _), Some (F _)) \<Rightarrow> Some (B True)
      | _ \<Rightarrow> None)"

definition num2 :: "('a \<Rightarrow> 'a \<Rightarrow> 'a) \<Rightarrow> 'a sval option \<Rightarrow> 'a sval option \<Rightarrow> 'a sval option" where
  "num2 f x y =
     (case (x, y) of
        (Some (F (Num a)), Some (F (Num b))) \<Rightarrow> Some (F (Num (f a b)))
      | _ \<Rightarrow> None)"

definition clamp_val :: "('a::linorder) sval option \<Rightarrow> 'a sval option \<Rightarrow> 'a sval option \<Rightarrow> 'a sval option" where
  "clamp_val x lo hi =
     (case (x, lo, hi) of
        (Some (F (Num a)), Some (F (Num l)), Some (F (Num h))) \<Rightarrow>
          if h < l then None
          else if a < l then Some (F (Num l))
          else if h < a then Some (F (Num h))
          else Some (F (Num a))
      | _ \<Rightarrow> None)"

definition bool2 :: "(bool \<Rightarrow> bool \<Rightarrow> bool) \<Rightarrow> 'a sval option \<Rightarrow> 'a sval option \<Rightarrow> 'a sval option" where
  "bool2 f x y = (case (x, y) of (Some (B a), Some (B b)) \<Rightarrow> Some (B (f a b)) | _ \<Rightarrow> None)"

fun eval :: "(nat \<Rightarrow> ('a::linorder) fpval) \<Rightarrow> 'a Id \<Rightarrow> 'a sval option" where
  "eval env (Arg n) = Some (F (env n))"
| "eval env (Constant t c) = Some (F (Num c))"
| "eval env (OpFMin t a b) = num2 min (eval env a) (eval env b)"
| "eval env (OpFMax t a b) = num2 max (eval env a) (eval env b)"
| "eval env (OpFClamp t x lo hi) = clamp_val (eval env x) (eval env lo) (eval env hi)"
| "eval env (OpIsNan t a) =
     (case eval env a of Some (F NaN) \<Rightarrow> Some (B True) | Some (F (Num _)) \<Rightarrow> Some (B False)
      | _ \<Rightarrow> None)"
| "eval env (OpLogicalNot t a) = (case eval env a of Some (B b) \<Rightarrow> Some (B (\<not> b)) | _ \<Rightarrow> None)"
| "eval env (OpLogicalAnd t a b) = bool2 (\<and>) (eval env a) (eval env b)"
| "eval env (OpLogicalOr t a b) = bool2 (\<or>) (eval env a) (eval env b)"
| "eval env (OpFOrdEqual t a b) = ord_cmp (=) (eval env a) (eval env b)"
| "eval env (OpFUnordEqual t a b) = unord_cmp (=) (eval env a) (eval env b)"
| "eval env (OpFOrdNotEqual t a b) = ord_cmp (\<noteq>) (eval env a) (eval env b)"
| "eval env (OpFUnordNotEqual t a b) = unord_cmp (\<noteq>) (eval env a) (eval env b)"
| "eval env (OpFOrdLessThan t a b) = ord_cmp (<) (eval env a) (eval env b)"
| "eval env (OpFUnordLessThan t a b) = unord_cmp (<) (eval env a) (eval env b)"
| "eval env (OpFOrdGreaterThan t a b) = ord_cmp (>) (eval env a) (eval env b)"
| "eval env (OpFUnordGreaterThan t a b) = unord_cmp (>) (eval env a) (eval env b)"
| "eval env (OpFOrdLessThanEqual t a b) = ord_cmp (\<le>) (eval env a) (eval env b)"
| "eval env (OpFUnordLessThanEqual t a b) = unord_cmp (\<le>) (eval env a) (eval env b)"
| "eval env (OpFOrdGreaterThanEqual t a b) = ord_cmp (\<ge>) (eval env a) (eval env b)"
| "eval env (OpFUnordGreaterThanEqual t a b) = unord_cmp (\<ge>) (eval env a) (eval env b)"

definition flag_set :: Profile where
  "flag_set = \<lparr>has_broken_spirv_clamp = True, ignore_nan_fp_comparisons = True\<rparr>"

definition flag_clear :: Profile where
  "flag_clear = \<lparr>has_broken_spirv_clamp = False, ignore_nan_fp_comparisons = False\<rparr>"

definition operands :: "'a fpval \<Rightarrow> 'a fpval \<Rightarrow> nat \<Rightarrow> 'a fpval" where
  "operands x y n = (if n = 0 then x else y)"



subsection \<open>Measuring the analysis\<close>


definition extends :: "ControlFlowAnalyzer_state \<Rightarrow> ControlFlowAnalyzer_state \<Rightarrow> bool" where
  "extends st st' = (dom (exit_method_map st) \<subseteq> dom (exit_method_map st'))"



subsection \<open>The text of an instruction's operands\<close>

text \<open>
  Names for the texts that \<^verbatim>\<open>CompileInstr\<close> builds before it dispatches on the opcode:
  the comment line of an instruction, the swizzle pattern it uses, the operand texts
  \<^verbatim>\<open>src1\<close>, \<^verbatim>\<open>src2\<close>, \<^verbatim>\<open>src3\<close> and the destination name \<^verbatim>\<open>dest_reg\<close>, for the
  arithmetic and the multiply-add format. The theorems below are stated with them.
\<close>

definition comment_line :: "u32 \<Rightarrow> Instruction \<Rightarrow> string" where
  "comment_line offset instr = ''// '' @ to_string (unat offset) @ '': '' @ info_name instr"

definition swizzle_of :: "GLSLGenerator_args \<Rightarrow> Instruction \<Rightarrow> SwizzlePattern" where
  "swizzle_of args instr =
     swizzle_data args (if info_type instr = MultiplyAdd then mad_operand_desc_id instr
                        else common_operand_desc_id instr)"

definition arith_src1 :: "GLSLGenerator_args \<Rightarrow> Instruction \<Rightarrow> string" where
  "arith_src1 args instr =
     (if negate_src1 (swizzle_of args instr) then ''-'' else [])
     @ GetSourceRegister args (common_GetSrc1 instr (info_src_inversed instr))
         (if info_src_inversed instr then 0 else common_address_register_index instr)
     @ ''.'' @ GetSelectorSrc1 (swizzle_of args instr)"

definition arith_src2 :: "GLSLGenerator_args \<Rightarrow> Instruction \<Rightarrow> string" where
  "arith_src2 args instr =
     (if negate_src2 (swizzle_of args instr) then ''-'' else [])
     @ GetSourceRegister args (common_GetSrc2 instr (info_src_inversed instr))
         (if info_src_inversed instr then common_address_register_index instr else 0)
     @ ''.'' @ GetSelectorSrc2 (swizzle_of args instr)"

definition mad_src1 :: "GLSLGenerator_args \<Rightarrow> Instruction \<Rightarrow> string" where
  "mad_src1 args instr =
     (if negate_src1 (swizzle_of args instr) then ''-'' else [])
     @ GetSourceRegister args (mad_GetSrc1 instr (effective_opcode instr = MADI)) 0
     @ ''.'' @ GetSelectorSrc1 (swizzle_of args instr)"

definition mad_src2 :: "GLSLGenerator_args \<Rightarrow> Instruction \<Rightarrow> string" where
  "mad_src2 args instr =
     (if negate_src2 (swizzle_of args instr) then ''-'' else [])
     @ GetSourceRegister args (mad_GetSrc2 instr (effective_opcode instr = MADI))
         (if effective_opcode instr = MADI then 0 else mad_address_register_index instr)
     @ ''.'' @ GetSelectorSrc2 (swizzle_of args instr)"

definition mad_src3 :: "GLSLGenerator_args \<Rightarrow> Instruction \<Rightarrow> string" where
  "mad_src3 args instr =
     (if negate_src3 (swizzle_of args instr) then ''-'' else [])
     @ GetSourceRegister args (mad_GetSrc3 instr (effective_opcode instr = MADI))
         (if effective_opcode instr = MADI then mad_address_register_index instr else 0)
     @ ''.'' @ GetSelectorSrc3 (swizzle_of args instr)"

definition mad_dest_reg :: "GLSLGenerator_args \<Rightarrow> Instruction \<Rightarrow> string" where
  "mad_dest_reg args instr =
     (case mad_dest instr of
        DestOutput index \<Rightarrow> outputreg_getter args index
      | DestTemporary index \<Rightarrow> ''reg_tmp'' @ to_string (unat index))"

text \<open>The destination components a swizzle pattern enables among the first four, and their mask.\<close>

definition enabled_components :: "SwizzlePattern \<Rightarrow> nat list" where
  "enabled_components swizzle = filter (DestComponentEnabled swizzle) [0, 1, 2, 3]"

definition dest_mask :: "SwizzlePattern \<Rightarrow> string" where
  "dest_mask swizzle = ''.'' @ map (\<lambda>i. ''xyzw'' ! i) (enabled_components swizzle)"

subsection \<open>Sample programs\<close>

text \<open>
  The decoded zero word (\<^verbatim>\<open>ADD\<close> of the first input register to itself), from which the
  sample instructions are made; a swizzle pattern that selects \<open>xyzw\<close> and enables the
  destination components listed; a program of 4096 words, zero words after the ones given.
\<close>

definition zero_instr :: Instruction where
  "zero_instr =
     \<lparr>opcode = ADD, effective_opcode = ADD, info_type = Arithmetic,
      info_src_inversed = False, info_name = ''add'',
      common_operand_desc_id = 0,
      common_GetSrc1 = (\<lambda>_. SrcInput 0), common_GetSrc2 = (\<lambda>_. SrcInput 0),
      common_address_register_index = 0, common_dest = DestOutput 0,
      compare_op_x = Equal, compare_op_y = Equal,
      flow_num_instructions = 0, flow_dest_offset = 0, flow_op = FlowOr,
      flow_bool_uniform_id = 0, flow_int_uniform_id = 0, flow_refx = False, flow_refy = False,
      mad_operand_desc_id = 0,
      mad_GetSrc1 = (\<lambda>_. SrcInput 0), mad_GetSrc2 = (\<lambda>_. SrcInput 0),
      mad_GetSrc3 = (\<lambda>_. SrcInput 0), mad_address_register_index = 0,
      mad_dest = DestOutput 0\<rparr>"

definition arith_instr ::
  "OpCodeId \<Rightarrow> string \<Rightarrow> DestRegister \<Rightarrow> SourceRegister \<Rightarrow> SourceRegister \<Rightarrow> Instruction" where
  "arith_instr op name dest src1 src2 =
     zero_instr\<lparr>opcode := op, effective_opcode := op, info_name := name,
                common_GetSrc1 := (\<lambda>_. src1), common_GetSrc2 := (\<lambda>_. src2),
                common_dest := dest\<rparr>"

definition flow_instr :: "OpCodeId \<Rightarrow> OpCodeType \<Rightarrow> string \<Rightarrow> u32 \<Rightarrow> u32 \<Rightarrow> Instruction" where
  "flow_instr op type name dest num =
     zero_instr\<lparr>opcode := op, effective_opcode := op, info_type := type, info_name := name,
                flow_dest_offset := dest, flow_num_instructions := num\<rparr>"

definition swizzle_xyzw :: "nat list \<Rightarrow> SwizzlePattern" where
  "swizzle_xyzw enabled =
     \<lparr>DestComponentEnabled = (\<lambda>i. i \<in> set enabled),
      negate_src1 = False, negate_src2 = False, negate_src3 = False,
      SelectorSrc1 = (\<lambda>i. [Sel_x, Sel_y, Sel_z, Sel_w] ! i),
      SelectorSrc2 = (\<lambda>i. [Sel_x, Sel_y, Sel_z, Sel_w] ! i),
      SelectorSrc3 = (\<lambda>i. [Sel_x, Sel_y, Sel_z, Sel_w] ! i)\<rparr>"

definition program :: "Instruction list \<Rightarrow> ProgramCode" where
  "program instrs =
     \<lparr>words = (\<lambda>i. if unat i < length instrs then instrs ! unat i else zero_instr),
      MAX_PROGRAM_CODE_LENGTH = 4096\<rparr>"

definition sample_args :: "Instruction list \<Rightarrow> nat list \<Rightarrow> bool \<Rightarrow> GLSLGenerator_args" where
  "sample_args instrs enabled sanitize =
     \<lparr>gen_subroutines = [], gen_program_code = program instrs,
      swizzle_data = (\<lambda>_. swizzle_xyzw enabled), main_offset = 0,
      inputreg_getter = (\<lambda>i. ''vs_in_reg'' @ to_string (unat i)),
      outputreg_getter = (\<lambda>i. ''vs_out_reg'' @ to_string (unat i)),
      sanitize_mul = sanitize\<rparr>"



definition empty_writer :: GLSLGenerator where
  "empty_writer = \<lparr>shader_source = [], scope = 0, error_log = []\<rparr>"

definition mul_instr :: Instruction where
  "mul_instr = arith_instr MUL ''mul'' (DestTemporary 0) (SrcInput 1) (SrcFloatUniform 2)"

definition rcp_instr :: Instruction where
  "rcp_instr = arith_instr RCP ''rcp'' (DestTemporary 3) (SrcTemporary 1) (SrcInput 0)"

definition rsq_instr :: Instruction where
  "rsq_instr = arith_instr RSQ ''rsq'' (DestTemporary 3) (SrcTemporary 1) (SrcInput 0)"

definition cmp_instr :: "CompareOp \<Rightarrow> CompareOp \<Rightarrow> Instruction" where
  "cmp_instr op_x op_y =
     (arith_instr CMP ''cmp'' (DestOutput 0) (SrcTemporary 1) (SrcTemporary 2))
       \<lparr>compare_op_x := op_x, compare_op_y := op_y\<rparr>"

text \<open>
  Two instructions, the given one and an \<^verbatim>\<open>ADD\<close>: the first with the operand descriptor
  0, whose swizzle enables no destination component, the second with the descriptor 1,
  whose swizzle enables all four.
\<close>

definition unmasked_args :: "Instruction \<Rightarrow> bool \<Rightarrow> GLSLGenerator_args" where
  "unmasked_args first sanitize =
     (sample_args
        [first,
         (arith_instr ADD ''add'' (DestTemporary 0) (SrcInput 1) (SrcInput 2))
           \<lparr>common_operand_desc_id := 1\<rparr>]
        [] sanitize)
       \<lparr>swizzle_data := (\<lambda>i. swizzle_xyzw (if i = 0 then [] else [0, 1, 2, 3]))\<rparr>"

text \<open>A cache whose current pipeline, with key 7, has not finished building.\<close>

definition pending_cache :: "nat ShaderCache" where
  "pending_cache =
     \<lparr>use_asynchronous_shaders = True, graphics_key = 7, current_pipeline = Some 7,
      graphics_cache = [7 \<mapsto> Some \<lparr>Key = 7, IsBuilt = False\<rparr>]\<rparr>"

subsection \<open>Failures and the growth of the generated text\<close>

text \<open>
  \<open>fails_in S r\<close>: if the computation \<open>r\<close> fails, the failure is one of \<open>S\<close>. The two sets
  are what the analysis and the generator can raise. \<open>grows sh sh'\<close>: the writer \<open>sh'\<close> holds
  the text of \<open>sh\<close> followed by more text, which is all that \<^verbatim>\<open>AddLine\<close> ever does.
\<close>

definition fails_in :: "Failure set \<Rightarrow> 'a result \<Rightarrow> bool" where
  "fails_in S r = (\<forall>err. r = Some (Inl err) \<longrightarrow> err \<in> S)"

definition analysis_failures :: "Failure set" where
  "analysis_failures = {DecompileFail ''Recursive function detected'', OutOfRange}"

definition grows :: "GLSLGenerator \<Rightarrow> GLSLGenerator \<Rightarrow> bool" where
  "grows sh sh' = prefix (shader_source sh) (shader_source sh')"

definition generation_failures :: "Failure set" where
  "generation_failures = {DecompileFail ''Unhandled instruction'', OutOfRange, AssertFailed}"

definition step_ok :: "GLSLGenerator \<Rightarrow> Failure + GLSLGenerator \<Rightarrow> bool" where
  "step_ok sh r = (case r of Inl err \<Rightarrow> err \<in> generation_failures | Inr sh' \<Rightarrow> grows sh sh')"

definition generates :: "('a \<Rightarrow> GLSLGenerator) \<Rightarrow> GLSLGenerator \<Rightarrow> 'a result \<Rightarrow> bool" where
  "generates proj sh r =
     (fails_in generation_failures r \<and> (\<forall>v. r = Some (Inr v) \<longrightarrow> grows sh (proj v)))"

text \<open>
  A program whose first instruction is an \<^verbatim>\<open>IFU\<close> with \<^verbatim>\<open>dest_offset = 0\<close> and
  \<^verbatim>\<open>num_instructions = 0\<close>, followed by \<^verbatim>\<open>END\<close>; the subroutines the analysis finds in it,
  and the generator's arguments for it.
\<close>

definition stuck_program :: ProgramCode where
  "stuck_program =
     program [flow_instr IFU UniformFlowControl ''ifu'' 0 0, flow_instr END Trivial ''end'' 0 0]"

definition stuck_subroutines :: "Subroutine list" where
  "stuck_subroutines =
     [\<lparr>sub_begin = 0, sub_end = 4096, exit_method = AlwaysEnd, labels = []\<rparr>,
      \<lparr>sub_begin = 1, sub_end = 0, exit_method = AlwaysEnd, labels = []\<rparr>]"

definition stuck_args :: GLSLGenerator_args where
  "stuck_args =
     \<lparr>gen_subroutines = stuck_subroutines, gen_program_code = stuck_program,
      swizzle_data = (\<lambda>_. swizzle_xyzw [0, 1, 2, 3]), main_offset = 0,
      inputreg_getter = (\<lambda>i. ''vs_in_reg'' @ to_string (unat i)),
      outputreg_getter = (\<lambda>i. ''vs_out_reg'' @ to_string (unat i)),
      sanitize_mul = False\<rparr>"

section \<open>Theorems\<close>

text \<open>
  C1. Exit-method merge laws, for every pair of exit methods:
  \<open>ParallelExit Undetermined x = x\<close>, \<open>ParallelExit x Undetermined = x\<close>,
  \<open>ParallelExit x x = x\<close>, every other mix is \<open>Conditional\<close>;
  \<open>SeriesExit AlwaysReturn x = x\<close>, \<open>SeriesExit Undetermined x = Undetermined\<close>, and
  otherwise the result is \<open>AlwaysEnd\<close> when the trailing method is \<open>Undetermined\<close> or
  \<open>AlwaysEnd\<close> and \<open>Conditional\<close> in every remaining case.
\<close>

theorem exit_method_merge_laws:
  "ParallelExit Undetermined x = x
   \<and> ParallelExit x Undetermined = x
   \<and> ParallelExit x x = x
   \<and> (a \<noteq> Undetermined \<and> b \<noteq> Undetermined \<and> a \<noteq> b \<longrightarrow> ParallelExit a b = Conditional)
   \<and> SeriesExit AlwaysReturn x = x
   \<and> SeriesExit Undetermined x = Undetermined
   \<and> (a \<noteq> AlwaysReturn \<and> a \<noteq> Undetermined \<longrightarrow>
        SeriesExit a b = (if b = Undetermined \<or> b = AlwaysEnd then AlwaysEnd else Conditional))"
  by (simp add: ParallelExit_def SeriesExit_def)

theorem exit_method_merge_laws_witness:
  "ParallelExit Undetermined AlwaysEnd = AlwaysEnd
   \<and> ParallelExit AlwaysEnd Undetermined = AlwaysEnd
   \<and> ParallelExit AlwaysEnd Conditional = Conditional
   \<and> SeriesExit AlwaysReturn AlwaysEnd = AlwaysEnd
   \<and> SeriesExit Conditional AlwaysReturn = Conditional
   \<and> SeriesExit Conditional Undetermined = AlwaysEnd"
  using exit_method_merge_laws [of AlwaysEnd AlwaysEnd Conditional]
    exit_method_merge_laws [of AlwaysEnd Conditional AlwaysReturn]
    exit_method_merge_laws [of AlwaysEnd Conditional Undetermined]
  by simp

text \<open>
  C4 (as the code has it). With asynchronous shaders enabled and the pipeline of the
  current key not built yet, \<open>BuiltPipeline\<close> returns null (the draw may be skipped) when
  the depth buffer is enabled, or when the index count and the vertex count are both
  above 6; it returns the pipeline exactly when the depth buffer is disabled and the
  index count or the vertex count is at most 6, and then \<open>ConfigureDraw\<close> records a wait
  for the build. \<open>CurrentGraphicsPipeline\<close> returns that result for a cached pipeline.
\<close>

theorem built_pipeline_async_policy:
  assumes "use_asynchronous_shaders c" and "\<not> IsBuilt p"
  shows "BuiltPipeline c d p =
           (if zeta_enable d = 0 \<and> (index_buffer_count d \<le> 6 \<or> vertex_buffer_count d \<le> 6)
            then Some p else None)
         \<and> WaitForBuild \<in> set (ConfigureDraw p)
         \<and> (graphics_cache c k = Some (Some p) \<and> Key p = k
              \<and> (current_pipeline c = None \<or> current_pipeline c = Some k) \<longrightarrow>
            fst (CurrentGraphicsPipeline True k created d c) = BuiltPipeline c d p)"
proof -
  have 1: "BuiltPipeline c d p =
           (if zeta_enable d = 0 \<and> (index_buffer_count d \<le> 6 \<or> vertex_buffer_count d \<le> 6)
            then Some p else None)"
    using assms by (simp add: BuiltPipeline_def)
  have 2: "WaitForBuild \<in> set (ConfigureDraw p)"
    using assms by (simp add: ConfigureDraw_def)
  have 3: "fst (CurrentGraphicsPipeline True k created d c) = BuiltPipeline c d p"
    if "graphics_cache c k = Some (Some p)" "Key p = k"
      "current_pipeline c = None \<or> current_pipeline c = Some k"
    using that
    by (auto simp: CurrentGraphicsPipeline_def CurrentGraphicsPipelineSlowPath_def Let_def
        BuiltPipeline_def)
  from 1 2 3 show ?thesis by blast
qed

theorem built_pipeline_async_policy_witness:
  "BuiltPipeline pending_cache
       \<lparr>zeta_enable = 0, index_buffer_count = 6, vertex_buffer_count = 300\<rparr>
       \<lparr>Key = 7, IsBuilt = False\<rparr> = Some \<lparr>Key = 7, IsBuilt = False\<rparr>
   \<and> WaitForBuild \<in> set (ConfigureDraw \<lparr>Key = 7 :: nat, IsBuilt = False\<rparr>)
   \<and> fst (CurrentGraphicsPipeline True 7 None
       \<lparr>zeta_enable = 0, index_buffer_count = 6, vertex_buffer_count = 300\<rparr> pending_cache)
     = Some \<lparr>Key = 7, IsBuilt = False\<rparr>"
  using built_pipeline_async_policy [of pending_cache "\<lparr>Key = 7, IsBuilt = False\<rparr>"
      "\<lparr>zeta_enable = 0, index_buffer_count = 6, vertex_buffer_count = 300\<rparr>" 7 None]
  by (simp add: pending_cache_def)

text \<open>
  The claim as stated fails: a draw with the depth buffer enabled and with 300 indices
  and 300 vertices (non-trivial on both counts) gets the null pointer, and a draw of 3
  vertices with the depth buffer disabled gets the unbuilt pipeline.
\<close>

theorem built_pipeline_counterexample:
  "BuiltPipeline pending_cache
       \<lparr>zeta_enable = 1, index_buffer_count = 300, vertex_buffer_count = 300\<rparr>
       \<lparr>Key = 7, IsBuilt = False\<rparr> = None
   \<and> BuiltPipeline pending_cache
       \<lparr>zeta_enable = 0, index_buffer_count = 300, vertex_buffer_count = 300\<rparr>
       \<lparr>Key = 7, IsBuilt = False\<rparr> = None
   \<and> BuiltPipeline pending_cache
       \<lparr>zeta_enable = 0, index_buffer_count = 3, vertex_buffer_count = 3\<rparr>
       \<lparr>Key = 7, IsBuilt = False\<rparr> = Some \<lparr>Key = 7, IsBuilt = False\<rparr>"
  by (simp add: BuiltPipeline_def pending_cache_def)

text \<open>
  Every comparison emitter but \<open>FPOrdNotEqual\<close> computes the same result with
  \<open>ignore_nan_fp_comparisons\<close> set as with it clear.
\<close>

lemma unord_compare_flag_irrelevant:
  "eval env (FPUnordCompare OpFUnordEqual flag_set lhs rhs)
     = eval env (FPUnordCompare OpFUnordEqual flag_clear lhs rhs)"
  "eval env (FPUnordCompare OpFUnordLessThan flag_set lhs rhs)
     = eval env (FPUnordCompare OpFUnordLessThan flag_clear lhs rhs)"
  "eval env (FPUnordCompare OpFUnordGreaterThan flag_set lhs rhs)
     = eval env (FPUnordCompare OpFUnordGreaterThan flag_clear lhs rhs)"
  "eval env (FPUnordCompare OpFUnordLessThanEqual flag_set lhs rhs)
     = eval env (FPUnordCompare OpFUnordLessThanEqual flag_clear lhs rhs)"
  "eval env (FPUnordCompare OpFUnordGreaterThanEqual flag_set lhs rhs)
     = eval env (FPUnordCompare OpFUnordGreaterThanEqual flag_clear lhs rhs)"
  by (simp_all add: FPUnordCompare_def flag_set_def flag_clear_def unord_cmp_def bool2_def
      split: option.splits sval.splits fpval.splits)

lemma compare_flag_irrelevant:
  "op \<noteq> FPOrdNotEqual_op \<Longrightarrow>
   eval env (EmitFPCompare op flag_set lhs rhs) = eval env (EmitFPCompare op flag_clear lhs rhs)"
  by (cases op) (simp_all add: unord_compare_flag_irrelevant)

text \<open>
  C5. The claim asks that every comparison, \<open>FPOrdNotEqual\<close> in particular, computes the
  same boolean with \<open>ignore_nan_fp_comparisons\<close> set as with it clear. On the operands
  1 and 2 the synthesized \<open>FPOrdNotEqual\<close> (built on \<open>OpFOrdEqual\<close>) is false, the native
  \<open>OpFOrdNotEqual\<close> true; on 1 and 1 it is true, the native one false.
\<close>

theorem fp_ord_not_equal_diverges:
  "eval (operands (Num 1) (Num (2::int))) (EmitFPCompare FPOrdNotEqual_op flag_set (Arg 0) (Arg 1))
     = Some (B False)
   \<and> eval (operands (Num 1) (Num (2::int))) (EmitFPCompare FPOrdNotEqual_op flag_clear (Arg 0) (Arg 1))
     = Some (B True)
   \<and> eval (operands (Num 1) (Num (1::int))) (EmitFPCompare FPOrdNotEqual_op flag_set (Arg 0) (Arg 1))
     = Some (B True)
   \<and> eval (operands (Num 1) (Num (1::int))) (EmitFPCompare FPOrdNotEqual_op flag_clear (Arg 0) (Arg 1))
     = Some (B False)"
  by (simp add: FPOrdNotEqual_def flag_set_def flag_clear_def operands_def ord_cmp_def bool2_def)

text \<open>
  C9 (as the code has it). With \<open>has_broken_spirv_clamp\<close> set each Saturate and Clamp
  emitter emits the decomposed \<open>FMin (FMax x lo) hi\<close>, with it clear the single
  \<open>FClamp x lo hi\<close>, where \<open>lo = 0\<close> and \<open>hi = 1\<close> for the Saturate opcodes. Under either
  setting a Saturate opcode gives a number clamped to \<open>[0, 1]\<close>, and a Clamp opcode whose
  lower bound does not exceed its upper bound gives the number clamped to \<open>[lo, hi]\<close>; on
  a NaN neither lowering has a defined result. So the two settings agree on every input
  of the Saturate opcodes, and on every input of the Clamp opcodes unless the lower
  bound exceeds the upper one.
\<close>

theorem clamp_lowering_equivalent:
  fixes env :: "nat \<Rightarrow> ('a::linordered_idom) fpval"
  shows
   "EmitFPSaturate16 p v =
      (if has_broken_spirv_clamp p
       then OpFMin F16 (OpFMax F16 v (Constant F16 0)) (Constant F16 1)
       else OpFClamp F16 v (Constant F16 0) (Constant F16 1))
    \<and> EmitFPSaturate32 p v =
      (if has_broken_spirv_clamp p
       then OpFMin F32 (OpFMax F32 v (Constant F32 0)) (Constant F32 1)
       else OpFClamp F32 v (Constant F32 0) (Constant F32 1))
    \<and> EmitFPSaturate64 p v =
      (if has_broken_spirv_clamp p
       then OpFMin F64 (OpFMax F64 v (Constant F64 0)) (Constant F64 1)
       else OpFClamp F64 v (Constant F64 0) (Constant F64 1))
    \<and> EmitFPClamp16 p v lo hi =
      (if has_broken_spirv_clamp p then OpFMin F16 (OpFMax F16 v lo) hi
       else OpFClamp F16 v lo hi)
    \<and> EmitFPClamp32 p v lo hi =
      (if has_broken_spirv_clamp p then OpFMin F32 (OpFMax F32 v lo) hi
       else OpFClamp F32 v lo hi)
    \<and> EmitFPClamp64 p v lo hi =
      (if has_broken_spirv_clamp p then OpFMin F64 (OpFMax F64 v lo) hi
       else OpFClamp F64 v lo hi)
    \<and> (eval env v = Some (F (Num a)) \<longrightarrow>
         eval env (EmitFPSaturate16 p v)
           = Some (F (Num (if a < 0 then 0 else if 1 < a then 1 else a)))
         \<and> eval env (EmitFPSaturate32 p v)
           = Some (F (Num (if a < 0 then 0 else if 1 < a then 1 else a)))
         \<and> eval env (EmitFPSaturate64 p v)
           = Some (F (Num (if a < 0 then 0 else if 1 < a then 1 else a))))
    \<and> (eval env v = Some (F (Num a)) \<and> eval env lo = Some (F (Num l))
         \<and> eval env hi = Some (F (Num h)) \<and> l \<le> h \<longrightarrow>
         eval env (EmitFPClamp16 p v lo hi)
           = Some (F (Num (if a < l then l else if h < a then h else a)))
         \<and> eval env (EmitFPClamp32 p v lo hi)
           = Some (F (Num (if a < l then l else if h < a then h else a)))
         \<and> eval env (EmitFPClamp64 p v lo hi)
           = Some (F (Num (if a < l then l else if h < a then h else a))))
    \<and> (eval env v = Some (F NaN) \<longrightarrow>
         eval env (EmitFPSaturate16 p v) = None
         \<and> eval env (EmitFPSaturate32 p v) = None
         \<and> eval env (EmitFPSaturate64 p v) = None
         \<and> eval env (EmitFPClamp16 p v lo hi) = None
         \<and> eval env (EmitFPClamp32 p v lo hi) = None
         \<and> eval env (EmitFPClamp64 p v lo hi) = None)
    \<and> eval env (EmitFPSaturate16 p v) = eval env (EmitFPSaturate16 q v)
    \<and> eval env (EmitFPSaturate32 p v) = eval env (EmitFPSaturate32 q v)
    \<and> eval env (EmitFPSaturate64 p v) = eval env (EmitFPSaturate64 q v)
    \<and> (\<not> (\<exists>l h. eval env lo = Some (F (Num l)) \<and> eval env hi = Some (F (Num h)) \<and> h < l)
         \<longrightarrow>
         eval env (EmitFPClamp16 p v lo hi) = eval env (EmitFPClamp16 q v lo hi)
         \<and> eval env (EmitFPClamp32 p v lo hi) = eval env (EmitFPClamp32 q v lo hi)
         \<and> eval env (EmitFPClamp64 p v lo hi) = eval env (EmitFPClamp64 q v lo hi))"
proof -
  have tree: "Clamp p t v lo hi =
      (if has_broken_spirv_clamp p then OpFMin t (OpFMax t v lo) hi else OpFClamp t v lo hi)"
    for t and lo hi :: "'a Id"
    by (simp add: Clamp_def)
  have val: "eval env (Clamp p t v lo hi)
               = Some (F (Num (if a < l then l else if h < a then h else a)))"
    if "eval env v = Some (F (Num a))" "eval env lo = Some (F (Num l))"
      "eval env hi = Some (F (Num h))" "l \<le> h" for t lo hi a l h
    using that by (auto simp: Clamp_def num2_def clamp_val_def min_def max_def)
  have nan: "eval env (Clamp p t v lo hi) = None"
    if "eval env v = Some (F NaN)" for t lo hi
    using that by (simp add: Clamp_def num2_def clamp_val_def)
  have const: "eval env (Constant t c) = Some (F (Num c))" for t and c :: 'a
    by simp
  have sat: "eval env (Clamp p t v (Constant t 0) (Constant t 1))
               = Some (F (Num (if a < 0 then 0 else if 1 < a then 1 else a)))"
    if "eval env v = Some (F (Num a))" for t a
    by (rule val [OF that const const]) simp
  have same: "eval env (Clamp p t v lo hi) = eval env (Clamp q t v lo hi)"
    if "\<not> (\<exists>l h. eval env lo = Some (F (Num l)) \<and> eval env hi = Some (F (Num h)) \<and> h < l)"
    for t lo hi
    using that
    by (auto simp: Clamp_def num2_def clamp_val_def min_def max_def
        split: option.splits sval.splits fpval.splits)
  have same_sat: "eval env (Clamp p t v (Constant t 0) (Constant t 1))
                    = eval env (Clamp q t v (Constant t 0) (Constant t 1))" for t
    by (rule same) simp
  show ?thesis
    unfolding EmitFPSaturate16_def EmitFPSaturate32_def EmitFPSaturate64_def
      EmitFPClamp16_def EmitFPClamp32_def EmitFPClamp64_def
    using tree val nan sat same same_sat by (intro conjI impI; (elim conjE)?) (simp_all only:)
qed

theorem clamp_lowering_equivalent_witness:
  "eval (\<lambda>n. [Num 7, Num 2, Num (5::int)] ! n) (EmitFPClamp32 flag_set (Arg 0) (Arg 1) (Arg 2))
     = Some (F (Num 5))
   \<and> eval (\<lambda>n. [Num 7, Num 2, Num (5::int)] ! n) (EmitFPClamp32 flag_clear (Arg 0) (Arg 1) (Arg 2))
     = Some (F (Num 5))
   \<and> EmitFPClamp32 flag_set (Arg 0) (Arg 1) (Arg 2 :: int Id)
     = OpFMin F32 (OpFMax F32 (Arg 0) (Arg 1)) (Arg 2)
   \<and> EmitFPClamp32 flag_clear (Arg 0) (Arg 1) (Arg 2 :: int Id)
     = OpFClamp F32 (Arg 0) (Arg 1) (Arg 2)
   \<and> eval (\<lambda>n. Num (-3::int)) (EmitFPSaturate16 flag_set (Arg 0)) = Some (F (Num 0))
   \<and> eval (\<lambda>n. Num (-3::int)) (EmitFPSaturate16 flag_clear (Arg 0)) = Some (F (Num 0))
   \<and> eval (\<lambda>n. Num (4::int)) (EmitFPSaturate64 flag_set (Arg 0)) = Some (F (Num 1))
   \<and> eval (\<lambda>n. Num (4::int)) (EmitFPSaturate64 flag_clear (Arg 0)) = Some (F (Num 1))
   \<and> eval (\<lambda>n. NaN :: int fpval) (EmitFPSaturate32 flag_set (Arg 0)) = None
   \<and> eval (\<lambda>n. NaN :: int fpval) (EmitFPSaturate32 flag_clear (Arg 0)) = None"
  using
    clamp_lowering_equivalent [where p = flag_set and q = flag_clear
      and env = "\<lambda>n. [Num 7, Num 2, Num (5::int)] ! n"
      and v = "Arg 0" and lo = "Arg 1" and hi = "Arg 2" and a = 7 and l = 2 and h = 5]
    clamp_lowering_equivalent [where p = flag_clear and q = flag_set
      and env = "\<lambda>n. [Num 7, Num 2, Num (5::int)] ! n"
      and v = "Arg 0" and lo = "Arg 1" and hi = "Arg 2" and a = 7 and l = 2 and h = 5]
    clamp_lowering_equivalent [where p = flag_set and q = flag_clear
      and env = "\<lambda>n. Num (-3::int)" and v = "Arg 0" and a = "-3"]
    clamp_lowering_equivalent [where p = flag_clear and q = flag_set
      and env = "\<lambda>n. Num (4::int)" and v = "Arg 0" and a = 4]
    clamp_lowering_equivalent [where p = flag_set and q = flag_clear
      and env = "\<lambda>n. NaN :: int fpval" and v = "Arg 0"]
  by (simp add: flag_set_def flag_clear_def EmitFPClamp32_def EmitFPSaturate16_def
      EmitFPSaturate32_def EmitFPSaturate64_def Clamp_def num2_def clamp_val_def)

text \<open>
  C9 as stated, for every input of the Clamp opcodes, fails where the lower bound
  exceeds the upper one: on the value 3 with bounds 5 and 2 the decomposed lowering
  gives 2, and \<open>FClamp\<close> has no defined result.
\<close>

theorem clamp_bounds_counterexample:
  "eval (\<lambda>n. [Num 3, Num 5, Num (2::int)] ! n) (EmitFPClamp32 flag_set (Arg 0) (Arg 1) (Arg 2))
     = Some (F (Num 2))
   \<and> eval (\<lambda>n. [Num 3, Num 5, Num (2::int)] ! n) (EmitFPClamp32 flag_clear (Arg 0) (Arg 1) (Arg 2))
     = None"
  by (simp add: EmitFPClamp32_def Clamp_def flag_set_def flag_clear_def num2_def clamp_val_def)

text \<open>What \<open>SetDest\<close> writes for a destination of four components.\<close>

lemma SetDest_4:
  "SetDest swizzle reg v 4 n sh =
     (if reg = [] \<or> enabled_components swizzle = [] then sh
      else AddLine (reg @ dest_mask swizzle @ '' = ''
                    @ (if n = 1 then
                         (if length (enabled_components swizzle) \<noteq> 1
                          then ''vec'' @ to_string (length (enabled_components swizzle)) @ ''('' @ v @ '')''
                          else v)
                       else if n \<noteq> length (enabled_components swizzle)
                         then ''('' @ v @ '')'' @ dest_mask swizzle
                       else v) @ '';'') sh)"
proof -
  have "[0..<4] = [0, 1, 2, 3::nat]"
    by (simp add: upt_rec)
  then show ?thesis
    by (simp add: SetDest_def enabled_components_def dest_mask_def Let_def)
qed

lemma CompileInstr_Arithmetic_at:
  assumes "code_at (gen_program_code args) offset = Inr instr" and "info_type instr = Arithmetic"
  shows "CompileInstr args offset sh =
           (case CompileInstr_Arithmetic args instr (swizzle_of args instr)
                   (AddLine (comment_line offset instr) sh) of
              Inl err \<Rightarrow> Inl err
            | Inr sh2 \<Rightarrow> Inr (offset + 1, sh2))"
  using assms by (simp add: CompileInstr_def swizzle_of_def comment_line_def Let_def)

text \<open>
  C6 (as the code has it). A \<^verbatim>\<open>MUL\<close> instruction passes to \<open>SetDest\<close> the value
  \<^verbatim>\<open>sanitize_mul(src1, src2)\<close> when \<^verbatim>\<open>sanitize_mul\<close> is true and \<^verbatim>\<open>src1 * src2\<close> when it
  is false, and \<^verbatim>\<open>MAD\<close>/\<^verbatim>\<open>MADI\<close> the same product followed by \<^verbatim>\<open> + src3\<close>, whatever the
  operands. \<open>SetDest\<close> writes the assignment of that value when the destination name is
  not empty and the swizzle enables a destination component, and writes nothing
  otherwise.
\<close>

theorem mul_mode_selection:
  assumes "code_at (gen_program_code args) offset = Inr instr"
  shows
    "(info_type instr = Arithmetic \<and> effective_opcode instr = MUL \<longrightarrow>
        CompileInstr args offset sh =
          Inr (offset + 1,
               SetDest (swizzle_of args instr) (GetDestRegister args (common_dest instr))
                 (if sanitize_mul args
                  then ''sanitize_mul('' @ arith_src1 args instr @ '', '' @ arith_src2 args instr @ '')''
                  else arith_src1 args instr @ '' * '' @ arith_src2 args instr)
                 4 4 (AddLine (comment_line offset instr) sh)))
     \<and> (info_type instr = MultiplyAdd
          \<and> (effective_opcode instr = MAD \<or> effective_opcode instr = MADI) \<longrightarrow>
        CompileInstr args offset sh =
          Inr (offset + 1,
               SetDest (swizzle_of args instr) (mad_dest_reg args instr)
                 (if sanitize_mul args
                  then ''sanitize_mul('' @ mad_src1 args instr @ '', '' @ mad_src2 args instr @ '') + ''
                       @ mad_src3 args instr
                  else mad_src1 args instr @ '' * '' @ mad_src2 args instr @ '' + ''
                       @ mad_src3 args instr)
                 4 4 (AddLine (comment_line offset instr) sh)))
     \<and> (reg \<noteq> [] \<and> enabled_components swizzle \<noteq> [] \<longrightarrow>
        SetDest swizzle reg v 4 4 sh' =
          AddLine (reg @ dest_mask swizzle @ '' = ''
                   @ (if length (enabled_components swizzle) = 4 then v
                      else ''('' @ v @ '')'' @ dest_mask swizzle) @ '';'') sh')
     \<and> (reg = [] \<or> enabled_components swizzle = [] \<longrightarrow> SetDest swizzle reg v 4 4 sh' = sh')"
proof -
  have mul: "CompileInstr args offset sh =
          Inr (offset + 1,
               SetDest (swizzle_of args instr) (GetDestRegister args (common_dest instr))
                 (if sanitize_mul args
                  then ''sanitize_mul('' @ arith_src1 args instr @ '', '' @ arith_src2 args instr @ '')''
                  else arith_src1 args instr @ '' * '' @ arith_src2 args instr)
                 4 4 (AddLine (comment_line offset instr) sh))"
    if "info_type instr = Arithmetic" "effective_opcode instr = MUL"
    using that
    by (simp add: CompileInstr_Arithmetic_at [OF assms] CompileInstr_Arithmetic_def Let_def
        arith_src1_def arith_src2_def)
  have mad: "CompileInstr args offset sh =
          Inr (offset + 1,
               SetDest (swizzle_of args instr) (mad_dest_reg args instr)
                 (if sanitize_mul args
                  then ''sanitize_mul('' @ mad_src1 args instr @ '', '' @ mad_src2 args instr @ '') + ''
                       @ mad_src3 args instr
                  else mad_src1 args instr @ '' * '' @ mad_src2 args instr @ '' + ''
                       @ mad_src3 args instr)
                 4 4 (AddLine (comment_line offset instr) sh))"
    if "info_type instr = MultiplyAdd" "effective_opcode instr = MAD \<or> effective_opcode instr = MADI"
    using that assms
    by (auto simp: CompileInstr_def CompileInstr_MultiplyAdd_def Let_def swizzle_of_def
        comment_line_def mad_src1_def mad_src2_def mad_src3_def mad_dest_reg_def)
  show ?thesis
    using mul mad by (simp add: SetDest_4)
qed

text \<open>Unfolding the sample programs and the text helpers.\<close>

lemmas sample_simps =
  sample_args_def program_def swizzle_xyzw_def arith_instr_def flow_instr_def zero_instr_def
  empty_writer_def code_at_def

lemmas text_simps =
  comment_line_def swizzle_of_def arith_src1_def arith_src2_def mad_src1_def mad_src2_def
  mad_src3_def mad_dest_reg_def GetSourceRegister_def GetDestRegister_def GetSelectorSrc1_def
  GetSelectorSrc2_def GetSelectorSrc3_def GetSelectorSrc_def selector_char_def
  enabled_components_def dest_mask_def AddLine_def AddExpression_def AddNewLine_def
  to_string.simps digit_char_def upt_rec

theorem mul_mode_selection_witness:
  "CompileInstr (sample_args [mul_instr] [0, 1, 2, 3] True) 0 empty_writer =
     Inr (1, \<lparr>shader_source = ''// 0: mul'' @ [newline]
                @ ''reg_tmp0.xyzw = sanitize_mul(vs_in_reg1.xyzw, uniforms.f[2].xyzw);'' @ [newline],
              scope = 0, error_log = []\<rparr>)
   \<and> CompileInstr (sample_args [mul_instr] [0, 2] False) 0 empty_writer =
     Inr (1, \<lparr>shader_source = ''// 0: mul'' @ [newline]
                @ ''reg_tmp0.xz = (vs_in_reg1.xyzw * uniforms.f[2].xyzw).xz;'' @ [newline],
              scope = 0, error_log = []\<rparr>)"
  using mul_mode_selection [of "sample_args [mul_instr] [0, 1, 2, 3] True" 0 mul_instr
      empty_writer "''reg_tmp0''" "swizzle_xyzw [0, 1, 2, 3]"
      "''sanitize_mul(vs_in_reg1.xyzw, uniforms.f[2].xyzw)''" "AddLine ''// 0: mul'' empty_writer"]
    mul_mode_selection [of "sample_args [mul_instr] [0, 2] False" 0 mul_instr
      empty_writer "''reg_tmp0''" "swizzle_xyzw [0, 2]"
      "''vs_in_reg1.xyzw * uniforms.f[2].xyzw''" "AddLine ''// 0: mul'' empty_writer"]
  by (simp add: sample_simps text_simps mul_instr_def)

text \<open>
  The claim as stated fails: a \<^verbatim>\<open>MUL\<close> whose destination mask enables no component emits
  its comment line only, neither the helper call nor the \<^verbatim>\<open>*\<close> operator.
\<close>

theorem mul_empty_mask_counterexample:
  "CompileInstr (sample_args [mul_instr] [] True) 0 empty_writer =
     Inr (1, \<lparr>shader_source = ''// 0: mul'' @ [newline], scope = 0, error_log = []\<rparr>)
   \<and> CompileInstr (sample_args [mul_instr] [] False) 0 empty_writer =
     Inr (1, \<lparr>shader_source = ''// 0: mul'' @ [newline], scope = 0, error_log = []\<rparr>)"
  by (simp add: CompileInstr_def CompileInstr_Arithmetic_def SetDest_def Let_def sample_simps
      text_simps mul_instr_def)

text \<open>
  What \<^verbatim>\<open>CompileInstr\<close> does for an \<^verbatim>\<open>RCP\<close> or \<^verbatim>\<open>RSQ\<close> instruction: the guard line
  (\<^verbatim>\<open>if (src.x != 0.0)\<close> for \<^verbatim>\<open>RCP\<close>, \<^verbatim>\<open>if (src.x > 0.0)\<close> for \<^verbatim>\<open>RSQ\<close>) is written after
  the comment line if and only if \<^verbatim>\<open>sanitize_mul\<close> is false, and \<open>SetDest\<close> is called
  next in both cases.
\<close>

lemma CompileInstr_RCP_RSQ:
  assumes "code_at (gen_program_code args) offset = Inr instr"
    and "info_type instr = Arithmetic"
  shows
    "(effective_opcode instr = RCP \<longrightarrow>
        CompileInstr args offset sh =
          Inr (offset + 1,
               SetDest (swizzle_of args instr) (GetDestRegister args (common_dest instr))
                 (''(1.0 / '' @ arith_src1 args instr @ ''.x)'') 4 1
                 (if sanitize_mul args then AddLine (comment_line offset instr) sh
                  else AddLine (''if ('' @ arith_src1 args instr @ ''.x != 0.0)'')
                         (AddLine (comment_line offset instr) sh))))
     \<and> (effective_opcode instr = RSQ \<longrightarrow>
        CompileInstr args offset sh =
          Inr (offset + 1,
               SetDest (swizzle_of args instr) (GetDestRegister args (common_dest instr))
                 (''inversesqrt('' @ arith_src1 args instr @ ''.x)'') 4 1
                 (if sanitize_mul args then AddLine (comment_line offset instr) sh
                  else AddLine (''if ('' @ arith_src1 args instr @ ''.x > 0.0)'')
                         (AddLine (comment_line offset instr) sh))))"
  using assms(2)
  by (simp add: CompileInstr_Arithmetic_at [OF assms] CompileInstr_Arithmetic_def Let_def
      arith_src1_def arith_src2_def)

lemma CompileInstr_RCP_RSQ_sample:
  "CompileInstr (sample_args [rcp_instr] [0] False) 0 empty_writer =
     Inr (1, \<lparr>shader_source = ''// 0: rcp'' @ [newline]
                @ ''if (reg_tmp1.xyzw.x != 0.0)'' @ [newline]
                @ ''reg_tmp3.x = (1.0 / reg_tmp1.xyzw.x);'' @ [newline],
              scope = 0, error_log = []\<rparr>)
   \<and> CompileInstr (sample_args [rcp_instr] [0] True) 0 empty_writer =
     Inr (1, \<lparr>shader_source = ''// 0: rcp'' @ [newline]
                @ ''reg_tmp3.x = (1.0 / reg_tmp1.xyzw.x);'' @ [newline],
              scope = 0, error_log = []\<rparr>)
   \<and> CompileInstr (sample_args [rsq_instr] [0, 1] False) 0 empty_writer =
     Inr (1, \<lparr>shader_source = ''// 0: rsq'' @ [newline]
                @ ''if (reg_tmp1.xyzw.x > 0.0)'' @ [newline]
                @ ''reg_tmp3.xy = vec2(inversesqrt(reg_tmp1.xyzw.x));'' @ [newline],
              scope = 0, error_log = []\<rparr>)
   \<and> CompileInstr (sample_args [rsq_instr] [0, 1] True) 0 empty_writer =
     Inr (1, \<lparr>shader_source = ''// 0: rsq'' @ [newline]
                @ ''reg_tmp3.xy = vec2(inversesqrt(reg_tmp1.xyzw.x));'' @ [newline],
              scope = 0, error_log = []\<rparr>)"
  using CompileInstr_RCP_RSQ [of "sample_args [rcp_instr] [0] False" 0 rcp_instr empty_writer]
    CompileInstr_RCP_RSQ [of "sample_args [rcp_instr] [0] True" 0 rcp_instr empty_writer]
    CompileInstr_RCP_RSQ [of "sample_args [rsq_instr] [0, 1] False" 0 rsq_instr empty_writer]
    CompileInstr_RCP_RSQ [of "sample_args [rsq_instr] [0, 1] True" 0 rsq_instr empty_writer]
  by (simp add: sample_simps text_simps rcp_instr_def rsq_instr_def SetDest_4)

text \<open>
  C7. The claim has the guard line of \<^verbatim>\<open>RCP\<close> and \<^verbatim>\<open>RSQ\<close> written before the assignment.
  For an \<^verbatim>\<open>RCP\<close> or \<^verbatim>\<open>RSQ\<close> whose swizzle enables no destination component, with
  \<^verbatim>\<open>sanitize_mul\<close> false, \<^verbatim>\<open>CompileInstr\<close> writes the comment line and the guard line and
  \<open>SetDest\<close> writes nothing: the guard stands with no assignment of its own, and in the
  text of the range the \<^verbatim>\<open>if\<close> governs the assignment of the next instruction. With
  \<^verbatim>\<open>sanitize_mul\<close> true the comment line alone is written.
\<close>

theorem rcp_guard_without_assignment:
  "CompileInstr (unmasked_args rcp_instr False) 0 empty_writer =
     Inr (1, \<lparr>shader_source = ''// 0: rcp'' @ [newline]
                @ ''if (reg_tmp1.xyzw.x != 0.0)'' @ [newline],
              scope = 0, error_log = []\<rparr>)
   \<and> CompileInstr (unmasked_args rsq_instr False) 0 empty_writer =
     Inr (1, \<lparr>shader_source = ''// 0: rsq'' @ [newline]
                @ ''if (reg_tmp1.xyzw.x > 0.0)'' @ [newline],
              scope = 0, error_log = []\<rparr>)
   \<and> CompileInstr (unmasked_args rcp_instr True) 0 empty_writer =
     Inr (1, \<lparr>shader_source = ''// 0: rcp'' @ [newline], scope = 0, error_log = []\<rparr>)
   \<and> CompileRange (unmasked_args rcp_instr False) 0 2 empty_writer =
     Some (Inr (2, \<lparr>shader_source = ''// 0: rcp'' @ [newline]
                @ ''if (reg_tmp1.xyzw.x != 0.0)'' @ [newline]
                @ ''// 1: add'' @ [newline]
                @ ''reg_tmp0.xyzw = vs_in_reg1.xyzw + vs_in_reg2.xyzw;'' @ [newline],
              scope = 0, error_log = []\<rparr>))"
  by (simp add: CompileRange_def CompileRange_loop.simps CompileInstr_def
      CompileInstr_Arithmetic_def SetDest_def Let_def sample_simps
      text_simps rcp_instr_def rsq_instr_def unmasked_args_def)

text \<open>
  C8. For every \<^verbatim>\<open>CMP\<close> instruction whose two compare operators are both in the table
  \<^verbatim>\<open>cmp_ops\<close> (the six supported operators): equal operators give exactly one line, the
  vectorized comparison assigning \<^verbatim>\<open>conditional_code\<close>; different operators give exactly
  two lines, the scalar comparison for \<^verbatim>\<open>conditional_code.x\<close>, then the one for
  \<^verbatim>\<open>conditional_code.y\<close>.
\<close>

theorem cmp_vectorized_or_scalar:
  assumes "code_at (gen_program_code args) offset = Inr instr"
    and "info_type instr = Arithmetic" and "effective_opcode instr = CMP"
    and "cmp_ops (compare_op_x instr) = Some (sym_x, func_x)"
    and "cmp_ops (compare_op_y instr) = Some (sym_y, func_y)"
  shows
    "CompileInstr args offset sh =
       Inr (offset + 1,
            if compare_op_x instr = compare_op_y instr then
              AddLine (''conditional_code = '' @ func_x @ ''(vec2('' @ arith_src1 args instr
                         @ ''), vec2('' @ arith_src2 args instr @ ''));'')
                (AddLine (comment_line offset instr) sh)
            else
              AddLine (''conditional_code.y = '' @ arith_src1 args instr @ ''.y '' @ sym_y @ '' ''
                         @ arith_src2 args instr @ ''.y;'')
                (AddLine (''conditional_code.x = '' @ arith_src1 args instr @ ''.x '' @ sym_x
                            @ '' '' @ arith_src2 args instr @ ''.x;'')
                  (AddLine (comment_line offset instr) sh)))"
  using assms(2-)
  by (simp add: CompileInstr_Arithmetic_at [OF assms(1,2)] CompileInstr_Arithmetic_def Let_def
      arith_src1_def arith_src2_def)

theorem cmp_vectorized_or_scalar_witness:
  "CompileInstr (sample_args [cmp_instr GreaterEqual GreaterEqual] [] False) 0 empty_writer =
     Inr (1, \<lparr>shader_source = ''// 0: cmp'' @ [newline]
                @ ''conditional_code = greaterThanEqual(vec2(reg_tmp1.xyzw), vec2(reg_tmp2.xyzw));''
                @ [newline],
              scope = 0, error_log = []\<rparr>)
   \<and> CompileInstr (sample_args [cmp_instr Equal LessThan] [] False) 0 empty_writer =
     Inr (1, \<lparr>shader_source = ''// 0: cmp'' @ [newline]
                @ ''conditional_code.x = reg_tmp1.xyzw.x == reg_tmp2.xyzw.x;'' @ [newline]
                @ ''conditional_code.y = reg_tmp1.xyzw.y < reg_tmp2.xyzw.y;'' @ [newline],
              scope = 0, error_log = []\<rparr>)"
  using cmp_vectorized_or_scalar [of "sample_args [cmp_instr GreaterEqual GreaterEqual] [] False"
      0 "cmp_instr GreaterEqual GreaterEqual" "''>=''" "''greaterThanEqual''" "''>=''"
      "''greaterThanEqual''" empty_writer]
    cmp_vectorized_or_scalar [of "sample_args [cmp_instr Equal LessThan] [] False"
      0 "cmp_instr Equal LessThan" "''==''" "''equal''" "''<''" "''lessThan''" empty_writer]
  by (simp add: sample_simps text_simps cmp_instr_def cmp_ops_def)

text \<open>
  C10. A \<^verbatim>\<open>CMP\<close> instruction with a compare operator outside the table (for the x lane,
  or else for the y lane) writes no code after its comment line, logs the error and
  does not fail: compilation goes on with the next instruction. An unhandled opcode (of
  the arithmetic format, of the multiply-add format or of the flow-control formats)
  raises \<^verbatim>\<open>DecompileFail\<close> instead.
\<close>

theorem cmp_unknown_operator:
  assumes "code_at (gen_program_code args) offset = Inr instr"
  shows
    "(info_type instr = Arithmetic \<and> effective_opcode instr = CMP
        \<and> (cmp_ops (compare_op_x instr) = None \<or> cmp_ops (compare_op_y instr) = None) \<longrightarrow>
        CompileInstr args offset sh =
          Inr (offset + 1,
               LOG_ERROR
                 (''Unknown compare mode ''
                  @ to_string (CompareOp_value
                      (if cmp_ops (compare_op_x instr) = None then compare_op_x instr
                       else compare_op_y instr)))
                 (AddLine (comment_line offset instr) sh)))
     \<and> (info_type instr = Arithmetic
        \<and> effective_opcode instr \<notin> {ADD, MUL, FLR, MAX_op, MIN_op, DP3, DP4, DPH, DPHI, RCP, RSQ,
              MOVA, MOV, SGE, SGEI, SLT, SLTI, CMP, EX2, LG2} \<longrightarrow>
        CompileInstr args offset sh = Inl (DecompileFail ''Unhandled instruction''))
     \<and> (info_type instr = MultiplyAdd \<and> effective_opcode instr \<notin> {MAD, MADI} \<longrightarrow>
        CompileInstr args offset sh = Inl (DecompileFail ''Unhandled instruction''))
     \<and> (info_type instr \<notin> {Arithmetic, MultiplyAdd}
        \<and> opcode instr \<notin> {END, JMPC, JMPU, CALL, CALLC, CALLU, NOP, IFC, IFU, LOOP, EMIT,
              SETEMIT} \<longrightarrow>
        CompileInstr args offset sh = Inl (DecompileFail ''Unhandled instruction''))"
proof -
  have 1: "CompileInstr args offset sh =
          Inr (offset + 1,
               LOG_ERROR
                 (''Unknown compare mode ''
                  @ to_string (CompareOp_value
                      (if cmp_ops (compare_op_x instr) = None then compare_op_x instr
                       else compare_op_y instr)))
                 (AddLine (comment_line offset instr) sh))"
    if "info_type instr = Arithmetic" "effective_opcode instr = CMP"
      "cmp_ops (compare_op_x instr) = None \<or> cmp_ops (compare_op_y instr) = None"
    using that
    by (auto simp: CompileInstr_Arithmetic_at [OF assms] CompileInstr_Arithmetic_def Let_def
        split: option.splits)
  have 2: "CompileInstr args offset sh = Inl (DecompileFail ''Unhandled instruction'')"
    if "info_type instr = Arithmetic"
      "effective_opcode instr \<notin> {ADD, MUL, FLR, MAX_op, MIN_op, DP3, DP4, DPH, DPHI, RCP, RSQ,
              MOVA, MOV, SGE, SGEI, SLT, SLTI, CMP, EX2, LG2}"
    using that
    by (simp add: CompileInstr_Arithmetic_at [OF assms] CompileInstr_Arithmetic_def Let_def)
  have 3: "CompileInstr args offset sh = Inl (DecompileFail ''Unhandled instruction'')"
    if "info_type instr = MultiplyAdd" "effective_opcode instr \<notin> {MAD, MADI}"
    using that assms
    by (simp add: CompileInstr_def CompileInstr_MultiplyAdd_def Let_def)
  have 4: "CompileInstr args offset sh = Inl (DecompileFail ''Unhandled instruction'')"
    if "info_type instr \<notin> {Arithmetic, MultiplyAdd}"
      "opcode instr \<notin> {END, JMPC, JMPU, CALL, CALLC, CALLU, NOP, IFC, IFU, LOOP, EMIT, SETEMIT}"
    using that assms
    by (simp add: CompileInstr_def CompileInstr_FlowControl_def Let_def)
  from 1 2 3 4 show ?thesis by blast
qed

theorem cmp_unknown_operator_witness:
  "CompileInstr (sample_args [cmp_instr Unk6 Equal] [] False) 0 empty_writer =
     Inr (1, \<lparr>shader_source = ''// 0: cmp'' @ [newline], scope = 0,
              error_log = [''Unknown compare mode 6'']\<rparr>)
   \<and> CompileInstr (sample_args [cmp_instr LessThan Unk7] [] False) 0 empty_writer =
     Inr (1, \<lparr>shader_source = ''// 0: cmp'' @ [newline], scope = 0,
              error_log = [''Unknown compare mode 7'']\<rparr>)
   \<and> CompileInstr (sample_args [arith_instr DST ''dst'' (DestOutput 0) (SrcInput 0) (SrcInput 0)]
         [] False) 0 empty_writer = Inl (DecompileFail ''Unhandled instruction'')
   \<and> CompileInstr (sample_args [flow_instr BREAKC ConditionalType ''breakc'' 0 0] [] False) 0
         empty_writer = Inl (DecompileFail ''Unhandled instruction'')"
  using cmp_unknown_operator [of "sample_args [cmp_instr Unk6 Equal] [] False" 0
      "cmp_instr Unk6 Equal" empty_writer]
    cmp_unknown_operator [of "sample_args [cmp_instr LessThan Unk7] [] False" 0
      "cmp_instr LessThan Unk7" empty_writer]
    cmp_unknown_operator [of
      "sample_args [arith_instr DST ''dst'' (DestOutput 0) (SrcInput 0) (SrcInput 0)] [] False" 0
      "arith_instr DST ''dst'' (DestOutput 0) (SrcInput 0) (SrcInput 0)" empty_writer]
    cmp_unknown_operator [of
      "sample_args [flow_instr BREAKC ConditionalType ''breakc'' 0 0] [] False" 0
      "flow_instr BREAKC ConditionalType ''breakc'' 0 0" empty_writer]
  by (simp add: sample_simps text_simps cmp_instr_def cmp_ops_def CompareOp_value_def
      LOG_ERROR_def)


text \<open>Termination of the control-flow analysis.\<close>

lemma extends_refl [simp]: "extends st st"
  by (simp add: extends_def)


lemma extends_update [simp]:
  "extends st (st'\<lparr>exit_method_map := (exit_method_map st')(k \<mapsto> m)\<rparr>) = 
   (dom (exit_method_map st) \<subseteq> insert k (dom (exit_method_map st')))"
  by (simp add: extends_def)

lemma extends_subroutines [simp]:
  "extends st (st'\<lparr>subroutines := s\<rparr>) = extends st st'"
  by (simp add: extends_def)















text \<open>The defining equations for a depth bound written as a numeral.\<close>

lemmas Scan_numeral = Scan.simps(2) [of "pred_numeral k", folded numeral_eq_Suc] for k

lemmas Scan_loop_numeral = Scan_loop.simps(2) [of "pred_numeral k", folded numeral_eq_Suc] for k

lemmas AddSubroutine_numeral = AddSubroutine.simps(2) [of "pred_numeral k", folded numeral_eq_Suc] for k


lemmas analyzer_simps =
  ControlFlowAnalyzer_def Scan_numeral AddSubroutine_numeral Scan_loop_numeral analysis_fuel_def
  PROGRAM_END_def bind_def return_def throw_def Scan_return_def Let_def
  ParallelExit_def SeriesExit_def


subsection \<open>What the decompiler raises and returns\<close>

text \<open>
  The analysis raises nothing but \<^verbatim>\<open>DecompileFail("Recursive function detected")\<close> and
  an out-of-range read of the program; the constructor adds
  \<^verbatim>\<open>DecompileFail("Program does not always end")\<close>.
\<close>

lemma fails_in_return: "fails_in S (return v)"
  by (simp add: fails_in_def return_def)

lemma fails_in_throw: "err \<in> S \<Longrightarrow> fails_in S (throw err)"
  by (simp add: fails_in_def throw_def)

lemma fails_in_bind:
  "fails_in S m \<Longrightarrow> (\<And>v. fails_in S (f v)) \<Longrightarrow> fails_in S (bind m f)"
  by (auto simp: fails_in_def bind_def split: option.splits sum.splits)

lemma fails_in_None: "fails_in S None"
  by (simp add: fails_in_def)

lemma analysis_fails_only:
  "fails_in analysis_failures (Scan n pc b e ls st)
   \<and> fails_in analysis_failures (Scan_loop n pc b e offset ls st)
   \<and> fails_in analysis_failures (AddSubroutine n pc b e st)"
proof (induction n arbitrary: b e offset ls st)
  case 0
  show ?case by (simp add: fails_in_None)
next
  case (Suc n)
  note S = Suc.IH [THEN conjunct1]
  note L = Suc.IH [THEN conjunct2, THEN conjunct1]
  note A = Suc.IH [THEN conjunct2, THEN conjunct2]
  have 1: "fails_in analysis_failures (Scan (Suc n) pc b e ls st)"
    by (simp add: fails_in_return L split: option.splits)
  have 2: "fails_in analysis_failures (Scan_loop (Suc n) pc b e offset ls st)"
    by (auto simp: Scan_return_def code_at_def analysis_failures_def [symmetric] Let_def
        split: sum.splits prod.splits
        intro!: fails_in_bind fails_in_return S L A)
      (simp_all add: analysis_failures_def fails_in_throw)
  have 3: "fails_in analysis_failures (AddSubroutine (Suc n) pc b e st)"
    by (auto simp: Let_def analysis_failures_def [symmetric] split: option.splits prod.splits
        intro!: fails_in_bind fails_in_return S)
      (simp_all add: analysis_failures_def fails_in_throw)
  from 1 2 3 show ?case by blast
qed

text \<open>
  The generator only ever appends to the shader text, and raises nothing but
  \<^verbatim>\<open>DecompileFail("Unhandled instruction")\<close>, an out-of-range read and a failed \<^verbatim>\<open>ASSERT\<close>.
\<close>

lemma grows_refl [simp]: "grows sh sh"
  by (simp add: grows_def)

lemma grows_trans: "grows a b \<Longrightarrow> grows b c \<Longrightarrow> grows a c"
  unfolding grows_def by (rule prefix_order.trans)

lemma grows_writer [simp]:
  "grows sh sh' \<Longrightarrow> grows sh (AddLine line sh')"
  "grows sh sh' \<Longrightarrow> grows sh (AddNewLine sh')"
  "grows sh sh' \<Longrightarrow> grows sh (inc_scope sh')"
  "grows sh sh' \<Longrightarrow> grows sh (dec_scope sh')"
  "grows sh sh' \<Longrightarrow> grows sh (LOG_ERROR msg sh')"
  by (auto simp: grows_def AddLine_def AddNewLine_def AddExpression_def inc_scope_def
      dec_scope_def LOG_ERROR_def intro: prefix_order.trans)

lemma grows_SetDest [simp]:
  "grows sh sh' \<Longrightarrow> grows sh (SetDest swizzle reg v n k sh')"
  by (simp add: SetDest_def Let_def)

lemma grows_CallSubroutine [simp]:
  "grows sh sh' \<Longrightarrow> grows sh (CallSubroutine subroutine sh')"
  by (simp add: CallSubroutine_def)

lemma grows_run [simp]:
  "grows sh sh' \<Longrightarrow> (\<And>step s. step \<in> set steps \<Longrightarrow> grows sh s \<Longrightarrow> grows sh (step s))
     \<Longrightarrow> grows sh (run steps sh')"
  unfolding run_def by (induction steps arbitrary: sh') auto

lemma CompileInstr_Arithmetic_ok:
  "grows sh0 sh \<Longrightarrow> step_ok sh0 (CompileInstr_Arithmetic args instr swizzle sh)"
  by (simp add: step_ok_def CompileInstr_Arithmetic_def Let_def generation_failures_def
      split: option.splits)

lemma CompileInstr_MultiplyAdd_ok:
  "grows sh0 sh \<Longrightarrow> step_ok sh0 (CompileInstr_MultiplyAdd args instr swizzle sh)"
  by (simp add: step_ok_def CompileInstr_MultiplyAdd_def Let_def generation_failures_def)

lemma CompileInstr_FlowControl_ok:
  "grows sh0 sh \<Longrightarrow>
   (case CompileInstr_FlowControl args instr offset sh of
      Inl err \<Rightarrow> err \<in> generation_failures
    | Inr next \<Rightarrow> grows sh0 (snd next))"
  by (simp add: CompileInstr_FlowControl_def Let_def generation_failures_def GetSubroutine_def
      split: option.splits)

lemma CompileInstr_ok:
  "case CompileInstr args offset sh of
     Inl err \<Rightarrow> err \<in> generation_failures
   | Inr next \<Rightarrow> grows sh (snd next)"
proof (cases "code_at (gen_program_code args) offset")
  case (Inl err)
  then show ?thesis
    by (auto simp: CompileInstr_def code_at_def generation_failures_def split: if_splits)
next
  case (Inr instr)
  define sh1 where "sh1 = AddLine (''// '' @ to_string (unat offset) @ '': '' @ info_name instr) sh"
  define swizzle where "swizzle = swizzle_data args
     (if info_type instr = MultiplyAdd then mad_operand_desc_id instr
      else common_operand_desc_id instr)"
  have g: "grows sh sh1" by (simp add: sh1_def)
  have eq: "CompileInstr args offset sh =
     (if info_type instr = Arithmetic then
        (case CompileInstr_Arithmetic args instr swizzle sh1 of
           Inl err \<Rightarrow> Inl err | Inr sh2 \<Rightarrow> Inr (offset + 1, sh2))
      else if info_type instr = MultiplyAdd then
        (case CompileInstr_MultiplyAdd args instr swizzle sh1 of
           Inl err \<Rightarrow> Inl err | Inr sh2 \<Rightarrow> Inr (offset + 1, sh2))
      else
        (case CompileInstr_FlowControl args instr offset sh1 of
           Inl err \<Rightarrow> Inl err | Inr (offset1, sh2) \<Rightarrow> Inr (offset1 + 1, sh2)))"
    by (simp add: CompileInstr_def Inr Let_def sh1_def swizzle_def)
  show ?thesis
    using CompileInstr_Arithmetic_ok [OF g, of args instr swizzle]
      CompileInstr_MultiplyAdd_ok [OF g, of args instr swizzle]
      CompileInstr_FlowControl_ok [OF g, of args instr offset]
    unfolding eq by (auto simp: step_ok_def split: sum.splits)
qed

lemma CompileRange_loop_ok:
  assumes "CompileRange_loop args limit pc sh = Some y"
  shows "case y of Inl err \<Rightarrow> err \<in> generation_failures | Inr next \<Rightarrow> grows sh (snd next)"
proof (rule CompileRange_loop.raw_induct
    [where P = "\<lambda>args limit pc sh y.
       case y of Inl err \<Rightarrow> err \<in> generation_failures | Inr next \<Rightarrow> grows sh (snd next)",
     OF _ assms])
  fix f args limit pc sh y
  assume IH: "\<And>args limit pc sh y. f args limit pc sh = Some y \<Longrightarrow>
      (case y of Inl err \<Rightarrow> err \<in> generation_failures | Inr next \<Rightarrow> grows sh (snd next))"
    and eq: "(if pc < limit then
                case CompileInstr args pc sh of
                  Inl err \<Rightarrow> Some (Inl err)
                | Inr next \<Rightarrow> f args limit (fst next) (snd next)
              else Some (Inr (pc, sh))) = Some y"
  show "case y of Inl err \<Rightarrow> err \<in> generation_failures | Inr next \<Rightarrow> grows sh (snd next)"
  proof (cases "pc < limit")
    case False
    with eq show ?thesis by auto
  next
    case True
    show ?thesis
    proof (cases "CompileInstr args pc sh")
      case (Inl err)
      with eq True CompileInstr_ok [where args = args and offset = pc and sh = sh] show ?thesis by auto
    next
      case (Inr nxt)
      with eq True have "f args limit (fst nxt) (snd nxt) = Some y" by simp
      from IH [OF this] CompileInstr_ok [where args = args and offset = pc and sh = sh] Inr show ?thesis
        by (auto split: sum.splits intro: grows_trans)
    qed
  qed
qed

lemma generates_return: "grows sh (proj v) \<Longrightarrow> generates proj sh (return v)"
  by (simp add: generates_def fails_in_return) (simp add: return_def)

lemma generates_throw: "err \<in> generation_failures \<Longrightarrow> generates proj sh (throw err)"
  by (simp add: generates_def fails_in_throw) (simp add: throw_def)

lemma generates_bind:
  assumes "generates p sh m" and "\<And>v. grows sh (p v) \<Longrightarrow> generates q (p v) (f v)"
  shows "generates q sh (bind m f)"
  using assms
  by (auto simp: generates_def fails_in_def bind_def split: option.splits sum.splits
      intro: grows_trans)

lemma generates_weaken:
  "grows sh0 sh \<Longrightarrow> generates proj sh r \<Longrightarrow> generates proj sh0 r"
  by (auto simp: generates_def intro: grows_trans)

lemma CompileRange_generates: "generates snd sh (CompileRange args b e sh)"
  using CompileRange_loop_ok [where args = args and pc = b and sh = sh]
  by (fastforce simp: generates_def fails_in_def CompileRange_def)

lemma Generate_labels_generates:
  "generates id sh (Generate_labels args subroutine ls label sh)"
proof (induction args subroutine ls label sh rule: Generate_labels.induct)
  case (1 args subroutine ls label sh)
  define sh1 where "sh1 = inc_scope (AddLine (''case '' @ to_string (unat label) @ ''u: {'') sh)"
  define next_label where "next_label =
    (case labels_lower_bound ls (label + 1) of None \<Rightarrow> sub_end subroutine | Some l \<Rightarrow> l)"
  have cont: "generates id sh2
     (let grown = (compile_end > next_label
                     \<and> compile_end \<noteq> PROGRAM_END (gen_program_code args));
          sh3 = (if grown then
                   AddLine (''{ jmp_to = '' @ to_string (unat compile_end) @ ''u; break; }'') sh2
                 else sh2);
          ls1 = (if grown then labels_insert compile_end ls else ls);
          sh4 = AddLine ''}'' (dec_scope sh3)
      in case labels_next ls1 label of
           None \<Rightarrow> return sh4
         | Some l \<Rightarrow> Generate_labels args subroutine ls1 l sh4)" for compile_end sh2
  proof -
    define grown where "grown = (next_label < compile_end
                     \<and> compile_end \<noteq> PROGRAM_END (gen_program_code args))"
    define sh3 where "sh3 = (if grown then
                   AddLine (''{ jmp_to = '' @ to_string (unat compile_end) @ ''u; break; }'') sh2
                 else sh2)"
    define ls1 where "ls1 = (if grown then labels_insert compile_end ls else ls)"
    define sh4 where "sh4 = AddLine ''}'' (dec_scope sh3)"
    have g: "grows sh2 sh4"
      by (simp add: sh4_def sh3_def)
    have "generates id sh2
       (case labels_next ls1 label of
          None \<Rightarrow> return sh4
        | Some l \<Rightarrow> Generate_labels args subroutine ls1 l sh4)"
    proof (cases "labels_next ls1 label")
      case None
      then show ?thesis by (simp add: generates_return g)
    next
      case (Some l)
      from "1.IH" [OF sh1_def next_label_def grown_def sh3_def ls1_def sh4_def Some]
      have "generates id sh4 (Generate_labels args subroutine ls1 l sh4)" .
      then show ?thesis
        using Some by (simp add: generates_weaken [OF g])
    qed
    then show ?thesis
      by (simp only: Let_def grown_def sh3_def ls1_def sh4_def)
  qed
  have "generates id sh
     (bind (CompileRange args label next_label sh1)
        (\<lambda>(compile_end, sh2).
           let grown = (compile_end > next_label
                          \<and> compile_end \<noteq> PROGRAM_END (gen_program_code args));
               sh3 = (if grown then
                        AddLine (''{ jmp_to = '' @ to_string (unat compile_end) @ ''u; break; }'')
                          sh2
                      else sh2);
               ls1 = (if grown then labels_insert compile_end ls else ls);
               sh4 = AddLine ''}'' (dec_scope sh3)
           in case labels_next ls1 label of
                None \<Rightarrow> return sh4
              | Some l \<Rightarrow> Generate_labels args subroutine ls1 l sh4))"
    apply (rule generates_weaken [where sh = sh1])
     apply (simp add: sh1_def)
    apply (rule generates_bind [where p = snd])
     apply (rule CompileRange_generates)
    apply (simp only: split_paired_all case_prod_conv snd_conv id_apply)
    apply (rule cont)
    done
  then show ?case
    by (subst Generate_labels.simps) (simp only: Let_def sh1_def next_label_def)
qed

lemma Generate_subroutine_generates:
  "generates id sh (Generate_subroutine args subroutine sh)"
proof -
  define sh1 where "sh1 = inc_scope (AddLine (''bool '' @ GetName subroutine @ ''() {'') sh)"
  have g: "grows sh sh1" by (simp add: sh1_def)
  have "generates id sh1
     (bind
        (if labels subroutine = [] then
           bind (CompileRange args (sub_begin subroutine) (sub_end subroutine) sh1)
             (\<lambda>(compile_end, sh2).
                return (if compile_end \<noteq> PROGRAM_END (gen_program_code args)
                        then AddLine ''return false;'' sh2 else sh2))
         else
           (case labels_insert (sub_begin subroutine) (labels subroutine) of
              [] \<Rightarrow> return sh1
            | first # rest \<Rightarrow>
                bind (Generate_labels args subroutine (first # rest) first
                        (run [AddLine (''uint jmp_to = '' @ to_string (unat (sub_begin subroutine))
                                         @ ''u;''),
                              AddLine ''while (true) {'',
                              inc_scope,
                              AddLine ''switch (jmp_to) {''] sh1))
                  (\<lambda>sh2.
                     return (run [AddLine ''default: return false;'',
                                  AddLine ''}'',
                                  dec_scope,
                                  AddLine ''}'',
                                  AddLine ''return false;''] sh2))))
        (\<lambda>sh3. return (AddLine (''}'' @ [newline]) (dec_scope sh3))))"
    apply (rule generates_bind [where p = id])
    subgoal
      apply (cases "labels subroutine = []")
      subgoal
        apply simp
        apply (rule generates_bind [where p = snd])
         apply (rule CompileRange_generates)
        apply (clarsimp simp: generates_return)
        done
      subgoal
        apply (cases "labels_insert (sub_begin subroutine) (labels subroutine)")
         apply (simp add: generates_return)
        apply simp
        apply (rule generates_bind [where p = id])
         apply (rule generates_weaken [OF _ Generate_labels_generates])
         apply (simp add: run_def)
        apply (simp add: generates_return run_def)
        done
      done
    subgoal by (simp add: generates_return)
    done
  then show ?thesis
    unfolding Generate_subroutine_def Let_def sh1_def [symmetric]
    by (rule generates_weaken [OF g])
qed

lemma Generate_definitions_generates:
  "generates id sh (Generate_definitions args subs sh)"
proof (induction subs arbitrary: sh)
  case Nil
  show ?case by (simp add: generates_return)
next
  case (Cons subroutine rest)
  show ?case
    apply simp
    apply (rule generates_bind [where p = id])
     apply (rule Generate_subroutine_generates)
    apply (simp add: Cons.IH [unfolded id_def])
    done
qed

lemma grows_foldl_AddLine [simp]:
  "grows sh0 sh \<Longrightarrow> grows sh0 (foldl (\<lambda>s x. AddLine (line x) s) sh xs)"
  by (induction xs arbitrary: sh) auto

lemma grows_nonempty: "grows sh sh' \<Longrightarrow> shader_source sh \<noteq> [] \<Longrightarrow> shader_source sh' \<noteq> []"
  by (auto simp: grows_def)

lemma Generate_result:
  "fails_in generation_failures (Generate args)
   \<and> (\<forall>sh. Generate args = Some (Inr sh) \<longrightarrow> shader_source sh \<noteq> [])"
proof -
  define sh2 :: GLSLGenerator where "sh2 =
     AddLine ''vec4 get_offset_register(int base_index, int offset) {''
       (if sanitize_mul args then
          run [AddLine ''vec4 sanitize_mul(vec4 lhs, vec4 rhs) {'',
               inc_scope,
               AddLine ''vec4 product = lhs * rhs;'',
               AddLine (''return mix(product, mix(mix(vec4(0.0), product, isnan(rhs)), ''
                        @ ''product, isnan(lhs)), isnan(product));''),
               dec_scope,
               AddLine (''}'' @ [newline])] \<lparr>shader_source = [], scope = 0, error_log = []\<rparr>
        else \<lparr>shader_source = [], scope = 0, error_log = []\<rparr>)"
  have ne: "shader_source sh2 \<noteq> []"
    by (simp add: sh2_def AddLine_def AddNewLine_def AddExpression_def)
  have "\<exists>sh9. grows sh2 sh9 \<and>
     Generate args =
       (case GetSubroutine args (main_offset args) (PROGRAM_END (gen_program_code args)) of
          Inl err \<Rightarrow> throw err
        | Inr program_main \<Rightarrow>
            Generate_definitions args (gen_subroutines args)
              (run [CallSubroutine program_main, dec_scope, AddLine (''}'' @ [newline])] sh9))"
    unfolding Generate_def Let_def
    by (rule exI, rule conjI [OF _ refl])
      (simp add: run_def sh2_def)
  then obtain sh9 where g: "grows sh2 sh9" and eq: "Generate args =
       (case GetSubroutine args (main_offset args) (PROGRAM_END (gen_program_code args)) of
          Inl err \<Rightarrow> throw err
        | Inr program_main \<Rightarrow>
            Generate_definitions args (gen_subroutines args)
              (run [CallSubroutine program_main, dec_scope, AddLine (''}'' @ [newline])] sh9))"
    by blast
  show ?thesis
  proof (cases "GetSubroutine args (main_offset args) (PROGRAM_END (gen_program_code args))")
    case (Inl err)
    then have "err = AssertFailed"
      by (auto simp: GetSubroutine_def split: option.splits)
    then show ?thesis
      using Inl by (simp add: eq fails_in_def throw_def generation_failures_def)
  next
    case (Inr program_main)
    define sh10 where "sh10 = run [CallSubroutine program_main, dec_scope, AddLine (''}'' @ [newline])] sh9"
    have "grows sh2 sh10"
      using g by (simp add: sh10_def run_def)
    then have ne10: "shader_source sh10 \<noteq> []"
      using ne by (rule grows_nonempty)
    have eq10: "Generate args = Generate_definitions args (gen_subroutines args) sh10"
      by (simp only: eq Inr sh10_def sum.case)
    have "generates id sh10 (Generate_definitions args (gen_subroutines args) sh10)"
      by (rule Generate_definitions_generates)
    then show ?thesis
      using ne10 by (auto simp: eq10 generates_def dest: grows_nonempty)
  qed
qed

text \<open>
  Hence a call of \<^verbatim>\<open>DecompileProgram\<close> that returns gives a string, unless it read out of
  range or an \<^verbatim>\<open>ASSERT\<close> failed; and the string is empty exactly when one of the three
  \<^verbatim>\<open>DecompileFail\<close> exceptions was raised.
\<close>

lemma ControlFlowAnalyzer_fails_only:
  "fails_in (insert (DecompileFail ''Program does not always end'') analysis_failures)
     (ControlFlowAnalyzer n program_code main)"
proof -
  have "fails_in analysis_failures
          (AddSubroutine n program_code main (PROGRAM_END program_code)
             \<lparr>subroutines = [], exit_method_map = Map.empty\<rparr>)"
    using analysis_fails_only by blast
  then show ?thesis
    unfolding ControlFlowAnalyzer_def
    by (auto simp: fails_in_def bind_def throw_def return_def split: option.splits sum.splits
        if_splits)
qed

lemma DecompileProgram_returns_text:
  assumes "DecompileProgram program_code swizzles main inputreg outputreg sanitize = Some r"
  shows "(\<exists>text. r = Inr text) \<or> r = Inl OutOfRange \<or> r = Inl AssertFailed"
    and "r = Inr [] \<longleftrightarrow>
           (\<exists>msg \<in> {''Program does not always end'', ''Recursive function detected'',
                      ''Unhandled instruction''}.
              ControlFlowAnalyzer analysis_fuel program_code main = Some (Inl (DecompileFail msg))
              \<or> (\<exists>subs.
                    ControlFlowAnalyzer analysis_fuel program_code main = Some (Inr subs)
                    \<and> Generate \<lparr>gen_subroutines = subs, gen_program_code = program_code,
                                 swizzle_data = swizzles, main_offset = main,
                                 inputreg_getter = inputreg, outputreg_getter = outputreg,
                                 sanitize_mul = sanitize\<rparr>
                        = Some (Inl (DecompileFail msg))))"
proof -
  note A = ControlFlowAnalyzer_fails_only [of analysis_fuel program_code main,
      unfolded fails_in_def analysis_failures_def, rule_format]
  note G = Generate_result [THEN conjunct1, unfolded fails_in_def generation_failures_def,
      rule_format]
  note N = Generate_result [THEN conjunct2, rule_format]
  show "(\<exists>text. r = Inr text) \<or> r = Inl OutOfRange \<or> r = Inl AssertFailed"
    using assms unfolding DecompileProgram_def
    by (auto simp: bind_def return_def split: option.splits sum.splits Failure.splits
        dest: A G)
  show "r = Inr [] \<longleftrightarrow>
           (\<exists>msg \<in> {''Program does not always end'', ''Recursive function detected'',
                      ''Unhandled instruction''}.
              ControlFlowAnalyzer analysis_fuel program_code main = Some (Inl (DecompileFail msg))
              \<or> (\<exists>subs.
                    ControlFlowAnalyzer analysis_fuel program_code main = Some (Inr subs)
                    \<and> Generate \<lparr>gen_subroutines = subs, gen_program_code = program_code,
                                 swizzle_data = swizzles, main_offset = main,
                                 inputreg_getter = inputreg, outputreg_getter = outputreg,
                                 sanitize_mul = sanitize\<rparr>
                        = Some (Inl (DecompileFail msg))))"
    using assms unfolding DecompileProgram_def
    by (auto simp: bind_def return_def split: option.splits sum.splits Failure.splits
        dest: A G N)
qed

subsection \<open>A call that does not return\<close>

text \<open>
  On \<open>stuck_program\<close> the analysis succeeds: the subroutine \<open>[1, 0)\<close> of the \<^verbatim>\<open>IFU\<close> reaches
  \<^verbatim>\<open>END\<close>, the scan after the \<^verbatim>\<open>IFU\<close> is the scan of \<open>[0, PROGRAM_END)\<close> that is still
  running, and \<open>SeriesExit Conditional Undetermined = AlwaysEnd\<close>. In the generator,
  \<^verbatim>\<open>CompileInstr(0)\<close> sets \<^verbatim>\<open>offset = else_offset - 1\<close> and returns \<^verbatim>\<open>offset + 1\<close>, which is 0
  again, so the loop of \<^verbatim>\<open>CompileRange(0, PROGRAM_END)\<close> compiles the same instruction
  for ever.
\<close>

lemma stuck_analysis:
  "ControlFlowAnalyzer analysis_fuel stuck_program 0 = Some (Inr stuck_subroutines)"
  by (simp add: analyzer_simps stuck_program_def stuck_subroutines_def sample_simps
      Subroutine_less_def)

lemma stuck_CompileInstr:
  "\<exists>sh'. CompileInstr stuck_args 0 sh = Inr (0, sh')"
  by (simp add: CompileInstr_def CompileInstr_FlowControl_def GetSubroutine_def Let_def
      stuck_args_def stuck_program_def stuck_subroutines_def sample_simps)

lemma stuck_CompileRange_loop_aux:
  assumes "CompileRange_loop a limit pc sh = Some y"
  shows "\<not> (a = stuck_args \<and> limit = 4096 \<and> pc = 0)"
proof (rule CompileRange_loop.raw_induct
    [where P = "\<lambda>a limit pc sh y. \<not> (a = stuck_args \<and> limit = 4096 \<and> pc = 0)", OF _ assms])
  fix f a limit pc sh y
  assume IH: "\<And>a limit pc sh y. f a limit pc sh = Some y
                \<Longrightarrow> \<not> (a = stuck_args \<and> limit = 4096 \<and> pc = 0)"
    and eq: "(if pc < limit then
                case CompileInstr a pc sh of
                  Inl err \<Rightarrow> Some (Inl err)
                | Inr next \<Rightarrow> f a limit (fst next) (snd next)
              else Some (Inr (pc, sh))) = Some y"
  show "\<not> (a = stuck_args \<and> limit = 4096 \<and> pc = 0)"
  proof
    assume s: "a = stuck_args \<and> limit = 4096 \<and> pc = 0"
    obtain sh' where "CompileInstr stuck_args 0 sh = Inr (0, sh')"
      using stuck_CompileInstr by blast
    with eq s have "f stuck_args 4096 0 sh' = Some y"
      by simp
    from IH [OF this] show False
      by simp
  qed
qed

lemma stuck_CompileRange_loop:
  "CompileRange_loop stuck_args 4096 0 sh = None"
  using stuck_CompileRange_loop_aux [of stuck_args 4096 0 sh]
  by (cases "CompileRange_loop stuck_args 4096 0 sh") auto

lemma stuck_args_simps:
  "gen_subroutines stuck_args = stuck_subroutines"
  "gen_program_code stuck_args = stuck_program"
  "main_offset stuck_args = 0"
  "sanitize_mul stuck_args = False"
  "PROGRAM_END stuck_program = 4096"
  by (simp_all add: stuck_args_def PROGRAM_END_def stuck_program_def program_def)

lemma stuck_Generate: "Generate stuck_args = None"
proof -
  have sub: "Generate_subroutine stuck_args
      \<lparr>sub_begin = 0, sub_end = 4096, exit_method = AlwaysEnd, labels = []\<rparr> sh = None" for sh
    by (simp add: Generate_subroutine_def CompileRange_def stuck_CompileRange_loop bind_def
        Let_def)
  have main: "GetSubroutine stuck_args 0 4096
      = Inr \<lparr>sub_begin = 0, sub_end = 4096, exit_method = AlwaysEnd, labels = []\<rparr>"
    by (simp add: GetSubroutine_def stuck_args_simps stuck_subroutines_def)
  show ?thesis
    by (simp add: Generate_def stuck_args_simps main Let_def)
      (simp add: stuck_subroutines_def sub bind_def)
qed

text \<open>
  Claim C3 says that \<^verbatim>\<open>DecompileProgram\<close> gives, for every input, a non-empty shader string
  or the empty string. For the program \<open>stuck_program\<close> with main offset 0 it gives
  neither: the call does not return.
\<close>

theorem decompile_program_does_not_return:
  "DecompileProgram stuck_program (\<lambda>_. swizzle_xyzw [0, 1, 2, 3]) 0
     (\<lambda>i. ''vs_in_reg'' @ to_string (unat i)) (\<lambda>i. ''vs_out_reg'' @ to_string (unat i)) False
   = None"
  using stuck_Generate
  by (simp add: DecompileProgram_def stuck_analysis bind_def stuck_args_def)

end
